theory Spec2Isabelle
  imports Complex_Main
begin

section \<open>Python values of \<^verbatim>\<open>scikits/bvp1lg/colnew.py\<close>\<close>

text \<open>
  The module \<^verbatim>\<open>colnew.py\<close> wraps the Fortran solver COLNEW: \<^verbatim>\<open>solve\<close> validates a
  problem, sizes and fills the two work arrays, calls the kernel \<^verbatim>\<open>_colnew.colnew\<close> and
  turns its status code into a \<^verbatim>\<open>Solution\<close> or an exception.

  Conventions of the embedding.
  \<^item> Python integers are \<open>int\<close>. An entry of an \<^verbatim>\<open>np.int32\<close> array (\<^verbatim>\<open>ipar\<close>,
    \<^verbatim>\<open>ispace\<close>) is an \<open>int\<close> too; a Python integer stored in such an array goes
    through \<open>np_int32\<close>, which wraps it around to 32 bits, or raises \<^verbatim>\<open>OverflowError\<close>
    when it does not fit 64 bits. The sums the code forms of entries (\<^verbatim>\<open>ispace[0] + 1\<close>,
    \<^verbatim>\<open>7 + ispace[2]\<close>) are done in 64 bits by the NumPy versions the module runs on.
  \<^item> \<^verbatim>\<open>x == None\<close> and \<^verbatim>\<open>x != None\<close> on a NumPy array compare entry by entry, as in
    every NumPy from 1.13 on; the truth value of the result is \<open>array_truth\<close>.
  \<^item> \<^verbatim>\<open>float64\<close> values are \<open>real\<close>: the code only compares, sorts and copies them.
    Rounding, infinities and NaN are outside the model.
  \<^item> An exception is an \<open>error\<close> value, returned as \<open>Inl\<close>.
  \<^item> The Fortran kernel, the user's callbacks that it calls and the complex adapter are
    not part of the module: they are parameters.
\<close>

datatype error =
    ValueError string
  | TypeError string
  | IndexError string
  | KeyError string
  | RuntimeError string
  | OverflowError string
  | SingularCollocationMatrix string
  | TooManySubintervals string
  | NoConvergence string

text \<open>
  Statements run one after the other until one raises: \<open>and_then m f\<close> continues with
  \<open>f\<close> on the value of \<open>m\<close>, or stops at its exception.
\<close>

definition and_then :: "error + 'a \<Rightarrow> ('a \<Rightarrow> error + 'b) \<Rightarrow> error + 'b" where
  "and_then m f = (case m of Inl e \<Rightarrow> Inl e | Inr v \<Rightarrow> f v)"

text \<open>
  A Python integer stored in an \<^verbatim>\<open>np.int32\<close> array, by \<^verbatim>\<open>np.array([...], np.int32)\<close> or
  by \<^verbatim>\<open>arr[i] = x\<close>: NumPy converts it to a C \<^verbatim>\<open>long\<close> of 64 bits, which raises
  \<^verbatim>\<open>OverflowError\<close> on an integer that does not fit, and keeps the low 32 bits of it,
  read as a signed number.
\<close>

definition wrap32 :: "int \<Rightarrow> int" where
  "wrap32 x = (x + 2147483648) mod 4294967296 - 2147483648"

definition fits_long :: "int \<Rightarrow> bool" where
  "fits_long x \<longleftrightarrow> - 9223372036854775808 \<le> x \<and> x \<le> 9223372036854775807"

definition np_int32 :: "int \<Rightarrow> error + int" where
  "np_int32 x =
     (if fits_long x then Inr (wrap32 x)
      else Inl (OverflowError ''Python int too large to convert to C long''))"

fun np_array_int32 :: "int list \<Rightarrow> error + int list" where
  "np_array_int32 [] = Inr []"
| "np_array_int32 (x # xs) =
     and_then (np_int32 x) (\<lambda>w. and_then (np_array_int32 xs) (\<lambda>ws. Inr (w # ws)))"

definition np_setitem_int32 :: "int list \<Rightarrow> nat \<Rightarrow> int \<Rightarrow> error + int list" where
  "np_setitem_int32 arr i x = and_then (np_int32 x) (\<lambda>w. Inr (arr[i := w]))"

text \<open>
  The truth value of a NumPy array of booleans, asked for by an \<^verbatim>\<open>if\<close>: that of its one
  entry, \<^verbatim>\<open>False\<close> for an empty array, and a \<^verbatim>\<open>ValueError\<close> for two entries or more.
\<close>

fun array_truth :: "bool list \<Rightarrow> error + bool" where
  "array_truth [] = Inr False"
| "array_truth [b] = Inr b"
| "array_truth (b # c # bs) =
     Inl (ValueError ''The truth value of an array with more than one element is ambiguous. Use a.any() or a.all()'')"

text \<open>Python's \<^verbatim>\<open>int\<close> of a float: the fraction is cut off.\<close>

definition py_int :: "real \<Rightarrow> int" where
  "py_int x = (if 0 \<le> x then \<lfloor>x\<rfloor> else \<lceil>x\<rceil>)"

text \<open>
  \<^verbatim>\<open>xs[:stop]\<close> of Python and NumPy: a negative \<open>stop\<close> counts from the end, and a
  \<open>stop\<close> beyond the end is cut to the length.
\<close>

definition py_slice_to :: "'a list \<Rightarrow> int \<Rightarrow> 'a list" where
  "py_slice_to xs stop =
     (if stop < 0 then take (nat (int (length xs) + stop)) xs else take (nat stop) xs)"

text \<open>
  \<^verbatim>\<open>arr[lo:hi] = src\<close> on a one-dimensional NumPy array, for \<open>0 \<le> lo \<le> hi\<close>: the slice
  is cut to the array; \<open>src\<close> must have the slice's length, or length 1 (it is then
  broadcast over the slice); anything else is a \<^verbatim>\<open>ValueError\<close>.
\<close>

definition np_setslice :: "'a list \<Rightarrow> nat \<Rightarrow> nat \<Rightarrow> 'a list \<Rightarrow> error + 'a list" where
  "np_setslice arr lo hi src =
     (let lo' = min lo (length arr);
          hi' = min hi (length arr);
          m = hi' - lo'
      in if length src = m then Inr (take lo' arr @ src @ drop hi' arr)
         else if length src = 1 then Inr (take lo' arr @ replicate m (hd src) @ drop hi' arr)
         else Inl (ValueError ''could not broadcast input array''))"

text \<open>
  \<^verbatim>\<open>np.empty([n], dtype)\<close>: a negative size is a \<^verbatim>\<open>ValueError\<close>; the contents of the new
  array are whatever the memory holds, here the function \<open>mem\<close>.
\<close>

definition np_empty :: "(nat \<Rightarrow> 'a) \<Rightarrow> int \<Rightarrow> error + 'a list" where
  "np_empty mem n =
     (if n < 0 then Inl (ValueError ''negative dimensions are not allowed'')
      else Inr (map mem [0..<nat n]))"

text \<open>Python's \<^verbatim>\<open>min\<close> and \<^verbatim>\<open>max\<close> of a sequence: a \<^verbatim>\<open>ValueError\<close> on the empty one.\<close>

fun py_min :: "real list \<Rightarrow> error + real" where
  "py_min [] = Inl (ValueError ''min() arg is an empty sequence'')"
| "py_min (x # xs) = Inr (fold min xs x)"

fun py_max :: "real list \<Rightarrow> error + real" where
  "py_max [] = Inl (ValueError ''max() arg is an empty sequence'')"
| "py_max (x # xs) = Inr (fold max xs x)"

text \<open>\<^verbatim>\<open>np.unique\<close> of a one-dimensional array: its distinct values in ascending order.\<close>

definition np_unique :: "real list \<Rightarrow> real list" where
  "np_unique xs = remdups_adj (sort xs)"

section \<open>The class \<^verbatim>\<open>Solution\<close>\<close>

record Solution =
  sol_ncomp :: int
  sol_mstar :: int
  sol_nmesh :: int
  sol_ispace :: "int list"
  sol_fspace :: "real list"

text \<open>
  \<^verbatim>\<open>Solution.__init__(self, ispace, fspace)\<close>. The reads \<^verbatim>\<open>ispace[2]\<close>, \<^verbatim>\<open>ispace[3]\<close>,
  \<^verbatim>\<open>ispace[0]\<close> and \<^verbatim>\<open>ispace[6]\<close> raise \<^verbatim>\<open>IndexError\<close> on an array that is too short.
\<close>

definition Solution_init :: "int list \<Rightarrow> real list \<Rightarrow> error + Solution" where
  "Solution_init ispace fspace =
     (if length ispace \<le> 2 then Inl (IndexError ''index 2 is out of bounds'')
      else if length ispace \<le> 3 then Inl (IndexError ''index 3 is out of bounds'')
      else if length ispace \<le> 6 then Inl (IndexError ''index 6 is out of bounds'')
      else Inr \<lparr> sol_ncomp = ispace ! 2,
                 sol_mstar = ispace ! 3,
                 sol_nmesh = ispace ! 0 + 1,
                 sol_ispace = py_slice_to ispace (7 + ispace ! 2),
                 sol_fspace = py_slice_to fspace (ispace ! 6) \<rparr>)"

text \<open>\<^verbatim>\<open>Solution.get_mesh\<close>: \<^verbatim>\<open>self.fspace[0:self.nmesh]\<close>.\<close>

definition get_mesh :: "Solution \<Rightarrow> real list" where
  "get_mesh sol = py_slice_to (sol_fspace sol) (sol_nmesh sol)"

section \<open>The arguments of \<^verbatim>\<open>solve\<close>\<close>

text \<open>
  \<^verbatim>\<open>boundary_points\<close> is documented as "a (mstar,) array": the caller passes a Python
  list or a NumPy array. The two differ in \<^verbatim>\<open>np.asarray(boundary_points, np.float64)\<close>,
  which builds a new array from a list and returns a \<^verbatim>\<open>float64\<close> array itself, uncopied.
\<close>

datatype points = PyList "real list" | NdArray "real list"

fun elems :: "points \<Rightarrow> real list" where
  "elems (PyList xs) = xs"
| "elems (NdArray xs) = xs"

text \<open>
  \<^verbatim>\<open>tolerances\<close> and \<^verbatim>\<open>extra_fixed_points\<close>: \<^verbatim>\<open>None\<close>, a Python list, or a NumPy array.
  The tests \<^verbatim>\<open>tolerances == None\<close> and \<^verbatim>\<open>extra_fixed_points == None\<close> tell the three
  apart: an array is compared entry by entry, none of which is \<^verbatim>\<open>None\<close>.
\<close>

datatype seq_arg = SeqNone | SeqList "real list" | SeqArray "real list"

fun seq_elems :: "seq_arg \<Rightarrow> real list" where
  "seq_elems SeqNone = []"
| "seq_elems (SeqList xs) = xs"
| "seq_elems (SeqArray xs) = xs"

fun seq_eq_None :: "seq_arg \<Rightarrow> error + bool" where
  "seq_eq_None SeqNone = Inr True"
| "seq_eq_None (SeqList xs) = Inr False"
| "seq_eq_None (SeqArray xs) = array_truth (map (\<lambda>x. False) xs)"

text \<open>
  \<^verbatim>\<open>initial_mesh\<close>: \<^verbatim>\<open>None\<close>, a number of points, or the mesh points in a Python list
  or in a NumPy array (such as the \<^verbatim>\<open>mesh\<close> of a \<^verbatim>\<open>Solution\<close>). The code asks for
  \<^verbatim>\<open>initial_mesh == None\<close>, \<^verbatim>\<open>len(initial_mesh)\<close>, \<^verbatim>\<open>int(initial_mesh)\<close> and
  \<^verbatim>\<open>initial_mesh != None\<close>. \<^verbatim>\<open>int\<close> raises \<^verbatim>\<open>TypeError\<close> on \<^verbatim>\<open>None\<close>, on a list and on
  an array that has not exactly one entry (\<open>mesh_int\<close> is \<open>None\<close> there).
\<close>

datatype mesh_arg = MeshNone | MeshCount int | MeshPoints "real list" | MeshArray "real list"

fun mesh_elems :: "mesh_arg \<Rightarrow> real list" where
  "mesh_elems MeshNone = []"
| "mesh_elems (MeshCount c) = []"
| "mesh_elems (MeshPoints pts) = pts"
| "mesh_elems (MeshArray pts) = pts"

fun mesh_eq_None :: "mesh_arg \<Rightarrow> error + bool" where
  "mesh_eq_None MeshNone = Inr True"
| "mesh_eq_None (MeshCount c) = Inr False"
| "mesh_eq_None (MeshPoints pts) = Inr False"
| "mesh_eq_None (MeshArray pts) = array_truth (map (\<lambda>x. False) pts)"

fun mesh_ne_None :: "mesh_arg \<Rightarrow> error + bool" where
  "mesh_ne_None MeshNone = Inr False"
| "mesh_ne_None (MeshCount c) = Inr True"
| "mesh_ne_None (MeshPoints pts) = Inr True"
| "mesh_ne_None (MeshArray pts) = array_truth (map (\<lambda>x. True) pts)"

fun mesh_len :: "mesh_arg \<Rightarrow> error + nat" where
  "mesh_len MeshNone = Inl (TypeError ''object of type NoneType has no len()'')"
| "mesh_len (MeshCount c) = Inl (TypeError ''object of type int has no len()'')"
| "mesh_len (MeshPoints pts) = Inr (length pts)"
| "mesh_len (MeshArray pts) = Inr (length pts)"

fun mesh_int :: "mesh_arg \<Rightarrow> int option" where
  "mesh_int MeshNone = None"
| "mesh_int (MeshCount c) = Some c"
| "mesh_int (MeshPoints pts) = None"
| "mesh_int (MeshArray pts) = (if length pts = 1 then Some (py_int (hd pts)) else None)"

text \<open>
  \<^verbatim>\<open>initial_guess\<close>: \<^verbatim>\<open>None\<close>, a callable, a \<^verbatim>\<open>Solution\<close>, or any other object
  (one that \<^verbatim>\<open>initial_guess == None\<close> tells from \<^verbatim>\<open>None\<close>: a number, a string, a list).
\<close>

datatype guess_arg = GuessNone | GuessCallable | GuessSolution Solution | GuessOther

record solve_args =
  boundary_points :: points
  degrees :: "int list"
  left :: "real option"
  right :: "real option"
  is_linear :: bool
  initial_guess :: guess_arg
  coarsen_initial_guess_mesh :: bool
  initial_mesh :: mesh_arg
  tolerances :: seq_arg
  adaptive_mesh_selection :: bool
  verbosity :: int
  collocation_points :: "int option"
  extra_fixed_points :: seq_arg
  problem_regularity :: int
  maximum_mesh_size :: int
  is_complex :: bool

text \<open>
  What the module takes from outside: \<^verbatim>\<open>_complex_adapter.ComplexAdapter\<close>, which
  replaces the boundary points, the degrees and the tolerances of a complex problem, and
  the contents of the memory that the two calls of \<^verbatim>\<open>np.empty\<close> return.
\<close>

record environment =
  c_adapter :: "points \<times> int list \<times> seq_arg \<Rightarrow> points \<times> int list \<times> seq_arg"
  empty_int32 :: "nat \<Rightarrow> int"
  empty_float64 :: "nat \<Rightarrow> real"

text \<open>The positional arguments of \<^verbatim>\<open>_colnew.colnew\<close>, the callbacks left out.\<close>

record kernel_args =
  k_degrees :: "int list"
  k_left :: real
  k_right :: real
  k_zeta :: "real list"
  k_ipar :: "int list"
  k_ltol :: "int list"
  k_tol :: "real list"
  k_fixpnt :: "real list"
  k_ispace :: "int list"
  k_fspace :: "real list"

section \<open>\<^verbatim>\<open>_colnew_solve\<close>, section by section\<close>

text \<open>"Handle complex equations".\<close>

definition adapt :: "environment \<Rightarrow> solve_args \<Rightarrow> points \<times> int list \<times> seq_arg" where
  "adapt env a =
     (if is_complex a then c_adapter env (boundary_points a, degrees a, tolerances a)
      else (boundary_points a, degrees a, tolerances a))"

text \<open>"Check degrees": the four tests, in the source's order.\<close>

definition check_degrees :: "int list \<Rightarrow> error option" where
  "check_degrees degs =
     (let ncomp = int (length degs);
          mstar = sum_list degs
      in if list_ex (\<lambda>x. x \<le> 0 \<or> x > 4) degs
           then Some (ValueError ''Invalid value for degrees'')
         else if ncomp \<le> 0 \<or> mstar \<le> 0
           then Some (ValueError ''Invalid value for degrees: no equations'')
         else if ncomp > 256 then Some (ValueError ''Too many equations'')
         else if mstar > 512 then Some (ValueError ''Too many unknown variables'')
         else None)"

text \<open>
  "Defaults", the collocation points: \<^verbatim>\<open>None\<close> becomes 0; a given number must lie in
  \<open>[max(degrees), 7]\<close>. (\<open>degs\<close> is not empty here: \<open>check_degrees\<close> has passed.)
\<close>

definition default_collocation_points :: "int option \<Rightarrow> int list \<Rightarrow> error + int" where
  "default_collocation_points cp degs =
     (case cp of
        None \<Rightarrow> Inr 0
      | Some c \<Rightarrow>
          if c < fold max (tl degs) (hd degs) \<or> c > 7
            then Inl (ValueError ''Invalid number of collocation points'')
          else Inr c)"

text \<open>"Calculate needed workspace size".\<close>

definition nsizei :: "int \<Rightarrow> int \<Rightarrow> int \<Rightarrow> int" where
  "nsizei k ncomp mstar = (let kd = k * ncomp; kdm = kd + mstar in 3 + kdm)"

definition nsizef :: "int \<Rightarrow> int \<Rightarrow> int \<Rightarrow> int" where
  "nsizef k ncomp mstar =
     (let kd = k * ncomp;
          kdm = kd + mstar;
          nrec = 0
      in 4 + 3 * mstar + (5 + kd) * kdm + (2 * mstar - nrec) * 2 * mstar)"

text \<open>
  "Boundary points". \<^verbatim>\<open>zeta = np.asarray(boundary_points, np.float64)\<close> is a new array
  for a list and the caller's own array for a \<^verbatim>\<open>float64\<close> array; \<^verbatim>\<open>zeta.sort()\<close> sorts
  in place, so in the second case it sorts \<^verbatim>\<open>boundary_points\<close> as well. The function
  returns \<open>zeta\<close> and the contents of \<^verbatim>\<open>boundary_points\<close> after the sort.
\<close>

definition check_boundary_points ::
  "points \<Rightarrow> int \<Rightarrow> real \<Rightarrow> real \<Rightarrow> error + (real list \<times> points)" where
  "check_boundary_points bp mstar lft rgt =
     (if int (length (elems bp)) \<noteq> mstar
        then Inl (ValueError ''Invalid number of boundary points'')
      else
        let zeta = sort (elems bp);
            bp' = (case bp of PyList xs \<Rightarrow> PyList xs | NdArray xs \<Rightarrow> NdArray zeta)
        in if zeta \<noteq> elems bp'
             then Inl (ValueError ''Invalid ordering of boundary points'')
           else if \<not> list_all (\<lambda>z. z \<ge> lft \<and> z \<le> rgt) zeta
             then Inl (ValueError ''Some boundary points outside range [left, right]'')
           else Inr (zeta, bp'))"

text \<open>"Fixed points in the mesh".\<close>

definition fixed_points :: "points \<Rightarrow> real list \<Rightarrow> real \<Rightarrow> real \<Rightarrow> real list" where
  "fixed_points bp extra lft rgt =
     np_unique (filter (\<lambda>x. x > lft \<and> x < rgt) (sort (elems bp @ extra)))"

text \<open>"Verbosity".\<close>

definition clamp_verbosity :: "int \<Rightarrow> int" where
  "clamp_verbosity v = (if v < 0 then 0 else if v > 2 then 2 else v)"

text \<open>
  "Tolerances": \<^verbatim>\<open>np.where(tolerances > 0)[0]\<close>, the tolerances at these indices, and
  the indices plus one.
\<close>

definition active_indices :: "real list \<Rightarrow> nat list" where
  "active_indices tols = filter (\<lambda>i. tols ! i > 0) [0..<length tols]"

definition active_tolerances :: "real list \<Rightarrow> int list \<times> real list" where
  "active_tolerances tols =
     (let ltol = active_indices tols;
          tol = map (\<lambda>i. tols ! i) ltol
      in (map (\<lambda>i. int i + 1) ltol, tol))"

text \<open>
  "Parameters to COLNEW": the eleven entries of \<^verbatim>\<open>ipar\<close>, stored in an \<^verbatim>\<open>np.int32\<close>
  array.
\<close>

definition initial_ipar ::
  "bool \<Rightarrow> int \<Rightarrow> int list \<Rightarrow> real list \<Rightarrow> int list \<Rightarrow> int \<Rightarrow> int \<Rightarrow> real list
     \<Rightarrow> error + int list" where
  "initial_ipar lin cp ltol fspace ispace verb regularity fixpnt =
     np_array_int32
       [1 - (if lin then 1 else 0),
        cp,
        10,
        int (length ltol),
        int (length fspace),
        int (length ispace),
        1 - verb,
        0,
        0,
        regularity,
        int (length fixpnt)]"

text \<open>
  "Initial guess". With a \<^verbatim>\<open>Solution\<close> the code first asks \<^verbatim>\<open>initial_mesh == None\<close>,
  which raises on an array of two or more mesh points; on a mesh that is not \<^verbatim>\<open>None\<close>
  it asks for \<^verbatim>\<open>len(initial_mesh)\<close>, which raises \<^verbatim>\<open>TypeError\<close> on a number. The entry
  \<^verbatim>\<open>ispace[0]\<close> is an \<^verbatim>\<open>np.int32\<close> already and is stored as it is.
\<close>

definition apply_initial_guess ::
  "guess_arg \<Rightarrow> mesh_arg \<Rightarrow> bool \<Rightarrow> int list \<Rightarrow> int list \<Rightarrow> real list
     \<Rightarrow> error + (int list \<times> int list \<times> real list)" where
  "apply_initial_guess guess mesh coarsen ipar ispace fspace =
     (case guess of
        GuessSolution g \<Rightarrow>
          and_then (mesh_eq_None mesh) (\<lambda>no_mesh.
          if no_mesh then
            and_then (np_setslice ispace 0 (length (sol_ispace g)) (sol_ispace g)) (\<lambda>ispace1.
            and_then (np_setslice fspace 0 (length (sol_fspace g)) (sol_fspace g)) (\<lambda>fspace1.
            if ispace1 = [] then Inl (IndexError ''index 0 is out of bounds'')
            else
              let ipar1 = ipar[2 := ispace1 ! 0]
              in Inr (if coarsen then ipar1[8 := 3] else ipar1[8 := 2], ispace1, fspace1)))
          else if coarsen
            then Inl (ValueError ''Initial mesh and guess both specified: cannot coarsen'')
          else
            and_then (mesh_len mesh) (\<lambda>n.
            and_then (np_setslice ispace n (n + length (sol_ispace g)) (sol_ispace g))
              (\<lambda>ispace1.
            and_then (np_setslice fspace n (n + length (sol_fspace g)) (sol_fspace g))
              (\<lambda>fspace1.
            and_then (np_setitem_int32 (ipar[8 := 4]) 2 (int n - 1)) (\<lambda>ipar1.
            Inr (ipar1, ispace1, fspace1))))))
      | GuessCallable \<Rightarrow> Inr (ipar[8 := 1], ispace, fspace)
      | GuessNone \<Rightarrow> Inr (ipar[8 := 0], ispace, fspace)
      | GuessOther \<Rightarrow> Inl (ValueError ''Unknown initial_guess''))"

text \<open>
  "Initial mesh". \<^verbatim>\<open>int(initial_mesh)\<close> succeeds on a number and on an array of one
  entry, which then count as a number of points; the \<^verbatim>\<open>TypeError\<close> it raises otherwise
  is caught, an \<^verbatim>\<open>OverflowError\<close> of the store is not. The test \<^verbatim>\<open>initial_mesh != None\<close>
  that follows raises on an array of two or more mesh points.
\<close>

definition apply_initial_mesh ::
  "mesh_arg \<Rightarrow> bool \<Rightarrow> int list \<Rightarrow> real list \<Rightarrow> error + (int list \<times> real list)" where
  "apply_initial_mesh mesh adaptive ipar fspace =
     and_then
       (case mesh_int mesh of
          Some c \<Rightarrow> and_then (np_setitem_int32 ipar 2 c) (\<lambda>ipar0. Inr (ipar0[7 := 0], MeshNone))
        | None \<Rightarrow> Inr (ipar, mesh)) (\<lambda>(ipar1, mesh1).
     and_then (mesh_ne_None mesh1) (\<lambda>given.
     if given then
       and_then (mesh_len mesh1) (\<lambda>n.
       and_then (np_setslice fspace 0 n (mesh_elems mesh1)) (\<lambda>fspace1.
       and_then (np_setitem_int32 ipar1 2 (int n - 1)) (\<lambda>ipar2.
       Inr (if \<not> adaptive then ipar2[7 := 2] else ipar2[7 := 1], fspace1))))
     else if \<not> adaptive
       then Inl (ValueError ''Cannot disable mesh selection when no initial_mesh given'')
     else Inr (ipar1[7 := 0], fspace)))"

text \<open>
  \<^verbatim>\<open>_colnew_solve\<close> up to the call of the kernel: the arguments it hands to
  \<^verbatim>\<open>_colnew.colnew\<close>, or the exception raised before the call.
\<close>

definition colnew_solve_args :: "environment \<Rightarrow> solve_args \<Rightarrow> error + kernel_args" where
  "colnew_solve_args env a =
     (case adapt env a of (bp, degs, tols0) \<Rightarrow>
      let ncomp = int (length degs);
          mstar = sum_list degs
      in
      and_then (case check_degrees degs of Some e \<Rightarrow> Inl e | None \<Rightarrow> Inr ()) (\<lambda>_.
      and_then (default_collocation_points (collocation_points a) degs) (\<lambda>cp.
      and_then (seq_eq_None (extra_fixed_points a)) (\<lambda>no_extra.
      and_then (seq_eq_None tols0) (\<lambda>no_tols.
      let extra = (if no_extra then [] else seq_elems (extra_fixed_points a));
          tols = (if no_tols then replicate (nat mstar) 0 else seq_elems tols0)
      in
      and_then (case left a of None \<Rightarrow> py_min (elems bp) | Some l \<Rightarrow> Inr l) (\<lambda>lft.
      and_then (case right a of None \<Rightarrow> py_max (elems bp) | Some r \<Rightarrow> Inr r) (\<lambda>rgt.
      let k = cp;
          nispace = maximum_mesh_size a * nsizei k ncomp mstar;
          nfspace = maximum_mesh_size a * nsizef k ncomp mstar
      in
      and_then (np_empty (empty_int32 env) nispace) (\<lambda>ispace.
      and_then (np_empty (empty_float64 env) nfspace) (\<lambda>fspace.
      and_then (check_boundary_points bp mstar lft rgt) (\<lambda>(zeta, bp').
      let fixpnt = fixed_points bp' extra lft rgt;
          verb = clamp_verbosity (verbosity a)
      in
      if int (length tols) \<noteq> mstar then Inl (ValueError ''Invalid number of tolerances'')
      else
      let (ltol, tol) = active_tolerances tols
      in
      and_then (initial_ipar (is_linear a) cp ltol fspace ispace verb
                  (problem_regularity a) fixpnt) (\<lambda>ipar.
      let fixpnt1 = (if length fixpnt = 0 then [0] else fixpnt)
      in
      and_then (apply_initial_guess (initial_guess a) (initial_mesh a)
                  (coarsen_initial_guess_mesh a) ipar ispace fspace) (\<lambda>(ipar1, ispace1, fspace1).
      and_then (apply_initial_mesh (initial_mesh a) (adaptive_mesh_selection a) ipar1 fspace1)
        (\<lambda>(ipar2, fspace2).
      Inr \<lparr> k_degrees = degs, k_left = lft, k_right = rgt, k_zeta = zeta,
            k_ipar = ipar2, k_ltol = ltol, k_tol = tol, k_fixpnt = fixpnt1,
            k_ispace = ispace1, k_fspace = fspace2 \<rparr>)))))))))))))"

text \<open>
  The kernel \<^verbatim>\<open>_colnew.colnew\<close> is a parameter: from its arguments and the state \<open>'s\<close> it
  works on (its COMMON blocks, and whatever the callbacks do) it gives the status code
  \<^verbatim>\<open>iflag\<close>, the new contents of \<^verbatim>\<open>ispace\<close> and \<^verbatim>\<open>fspace\<close>, and the new state.
\<close>

type_synonym 's kernel = "kernel_args \<Rightarrow> 's \<Rightarrow> (int \<times> int list \<times> real list) \<times> 's"

text \<open>What \<^verbatim>\<open>_colnew_solve\<close> returns: a \<^verbatim>\<open>Solution\<close>, wrapped for a complex problem.\<close>

datatype result = RealSolution Solution | ComplexSolution Solution

text \<open>"Check return value" and "Form the result".\<close>

definition check_return_value ::
  "int \<Rightarrow> int list \<Rightarrow> real list \<Rightarrow> bool \<Rightarrow> error + result" where
  "check_return_value iflag ispace fspace cplx =
     (if iflag = 1 then
        and_then (Solution_init ispace fspace) (\<lambda>solution.
          if cplx then Inr (ComplexSolution solution) else Inr (RealSolution solution))
      else if iflag = 0 then
        Inl (SingularCollocationMatrix ''Singular collocation matrix in COLNEW'')
      else if iflag = - 1 then
        Inl (TooManySubintervals
          ''Out of storage space in COLNEW. Try increasing maximum_mesh_size.'')
      else if iflag = - 2 then
        Inl (NoConvergence ''Nonlinear iteration did not converge in COLNEW'')
      else if iflag = - 3 then Inl (ValueError ''Invalid input data for COLNEW'')
      else Inl (RuntimeError ''Unknown error in COLNEW''))"

definition colnew_solve ::
  "environment \<Rightarrow> 's kernel \<Rightarrow> solve_args \<Rightarrow> 's \<Rightarrow> (error + result) \<times> 's" where
  "colnew_solve env colnew a s =
     (case colnew_solve_args env a of
        Inl e \<Rightarrow> (Inl e, s)
      | Inr ka \<Rightarrow>
          (case colnew ka s of
             ((iflag, ispace, fspace), s') \<Rightarrow>
               (check_return_value iflag ispace fspace (is_complex a), s')))"

section \<open>Reentrancy: \<^verbatim>\<open>_colnew_enter\<close>, \<^verbatim>\<open>_colnew_exit\<close> and \<^verbatim>\<open>solve\<close>\<close>

text \<open>
  A COMMON block of the kernel, as f2py shows it: the names in its \<^verbatim>\<open>__dict__\<close> and,
  for each, the array \<^verbatim>\<open>getattr(com, name)\<close>. The values \<open>'v\<close> are array contents.
  An entry of \<^verbatim>\<open>_colnew_stack\<close> holds one dictionary per block; \<^verbatim>\<open>np.array(..., copy=True)\<close>
  gives the dictionary an array no one else refers to, so the saved value cannot change.
\<close>

record 'v common_block =
  cb_names :: "string list"
  cb_vars :: "string \<Rightarrow> 'v"

record 'v colnew_state =
  colnew_stack :: "(string \<rightharpoonup> 'v) list list"
  colnew_depth :: int
  colnew_commons :: "'v common_block list"

text \<open>The inner loop of \<^verbatim>\<open>_colnew_enter\<close>: \<^verbatim>\<open>stack_sub[name] = np.array(..., copy=True)\<close>.\<close>

definition save_block :: "'v common_block \<Rightarrow> (string \<rightharpoonup> 'v)" where
  "save_block com = fold (\<lambda>name stack_sub. stack_sub(name \<mapsto> cb_vars com name)) (cb_names com) Map.empty"

definition colnew_enter :: "'v colnew_state \<Rightarrow> 'v colnew_state" where
  "colnew_enter s =
     (let s1 = s\<lparr>colnew_depth := colnew_depth s + 1\<rparr>
      in if colnew_depth s1 = 1 then s1
         else
           let stack_entry = map save_block (colnew_commons s1)
           in s1\<lparr>colnew_stack := colnew_stack s1 @ [stack_entry]\<rparr>)"

text \<open>
  The inner loop of \<^verbatim>\<open>_colnew_exit\<close>: \<^verbatim>\<open>getattr(com, name)[...] = sub[name]\<close>, which raises
  \<^verbatim>\<open>KeyError\<close> on a name the dictionary lacks and leaves the earlier writes in place.
\<close>

fun restore_block ::
  "string list \<Rightarrow> (string \<Rightarrow> 'v) \<Rightarrow> (string \<rightharpoonup> 'v) \<Rightarrow> error option \<times> (string \<Rightarrow> 'v)" where
  "restore_block [] vars sub = (None, vars)"
| "restore_block (name # names) vars sub =
     (case sub name of
        None \<Rightarrow> (Some (KeyError name), vars)
      | Some v \<Rightarrow> restore_block names (vars(name := v)) sub)"

text \<open>The outer loop, over \<^verbatim>\<open>zip(_colnew_commons, entry)\<close>: it ends with the shorter list.\<close>

fun restore_commons ::
  "'v common_block list \<Rightarrow> (string \<rightharpoonup> 'v) list
     \<Rightarrow> error option \<times> 'v common_block list" where
  "restore_commons (com # coms) (sub # entry) =
     (case restore_block (cb_names com) (cb_vars com) sub of
        (Some e, vars) \<Rightarrow> (Some e, com\<lparr>cb_vars := vars\<rparr> # coms)
      | (None, vars) \<Rightarrow>
          (case restore_commons coms entry of
             (e, coms') \<Rightarrow> (e, com\<lparr>cb_vars := vars\<rparr> # coms')))"
| "restore_commons coms entry = (None, coms)"

text \<open>
  \<^verbatim>\<open>_colnew_exit\<close>: the exception it may raise (\<^verbatim>\<open>pop\<close> from an empty stack, a missing
  name) and the state it leaves.
\<close>

definition colnew_exit :: "'v colnew_state \<Rightarrow> error option \<times> 'v colnew_state" where
  "colnew_exit s =
     (let s1 = s\<lparr>colnew_depth := colnew_depth s - 1\<rparr>
      in if colnew_depth s1 = 0 then (None, s1)
         else if colnew_stack s1 = [] then (Some (IndexError ''pop from empty list''), s1)
         else
           let entry = last (colnew_stack s1);
               s2 = s1\<lparr>colnew_stack := butlast (colnew_stack s1)\<rparr>
           in case restore_commons (colnew_commons s2) entry of
                (e, coms) \<Rightarrow> (e, s2\<lparr>colnew_commons := coms\<rparr>))"

text \<open>
  \<^verbatim>\<open>solve\<close>: \<^verbatim>\<open>try: _colnew_enter(); return _colnew_solve(...) finally: _colnew_exit()\<close>.
  The \<^verbatim>\<open>finally\<close> clause runs after a return and after an exception alike; an exception
  of its own replaces either.
\<close>

definition solve ::
  "environment \<Rightarrow> ('v colnew_state) kernel \<Rightarrow> solve_args \<Rightarrow> 'v colnew_state
     \<Rightarrow> (error + result) \<times> 'v colnew_state" where
  "solve env colnew a s =
     (let s1 = colnew_enter s
      in case colnew_solve env colnew a s1 of
           (r, s2) \<Rightarrow>
             (case colnew_exit s2 of
                (None, s3) \<Rightarrow> (r, s3)
              | (Some err, s3) \<Rightarrow> (Inl err, s3)))"

text \<open>
  What a caller can see of the COMMON blocks: the names of each block and the value of
  each name.
\<close>

definition visible :: "'v colnew_state \<Rightarrow> (string list \<times> 'v list) list" where
  "visible s = map (\<lambda>com. (cb_names com, map (cb_vars com) (cb_names com))) (colnew_commons s)"

text \<open>
  The kernel writes the variables of the COMMON blocks; it cannot add or remove a
  variable, and a solve that a callback starts has ended when the kernel returns. So a
  kernel leaves the depth, the stack and the names as they were.
\<close>

definition respects_frames :: "('v colnew_state) kernel \<Rightarrow> bool" where
  "respects_frames colnew =
     (\<forall>ka s. colnew_depth (snd (colnew ka s)) = colnew_depth s
           \<and> colnew_stack (snd (colnew ka s)) = colnew_stack s
           \<and> map cb_names (colnew_commons (snd (colnew ka s))) = map cb_names (colnew_commons s))"

text \<open>The exceptions that \<^verbatim>\<open>_colnew_solve\<close> raises on purpose are \<^verbatim>\<open>ValueError\<close>s.\<close>

definition is_ValueError :: "error \<Rightarrow> bool" where
  "is_ValueError e = (case e of ValueError msg \<Rightarrow> True | _ \<Rightarrow> False)"

definition is_OverflowError :: "error \<Rightarrow> bool" where
  "is_OverflowError e = (case e of OverflowError msg \<Rightarrow> True | _ \<Rightarrow> False)"

section \<open>\<^verbatim>\<open>check_jacobians\<close>: the Jacobian of the boundary conditions\<close>

text \<open>
  The second part of \<^verbatim>\<open>check_jacobians\<close> hands \<^verbatim>\<open>jacobian.check_jacobian\<close> a function
  \<^verbatim>\<open>_gsub\<close> and a Jacobian \<^verbatim>\<open>_dgsub\<close> of one vector \<open>z\<close> that holds a copy of the unknowns
  for each distinct boundary point. \<^verbatim>\<open>check_jacobian\<close> is not part of the module: it is a
  parameter. A two-dimensional array is a function of the row and the column.
\<close>

type_synonym matrix = "nat \<Rightarrow> nat \<Rightarrow> real"

text \<open>\<^verbatim>\<open>indep.index(p)\<close>: the first position of \<open>p\<close>, or a \<^verbatim>\<open>ValueError\<close>.\<close>

fun py_index :: "real list \<Rightarrow> real \<Rightarrow> error + nat" where
  "py_index [] p = Inl (ValueError ''x is not in list'')"
| "py_index (x # xs) p = (if x = p then Inr 0 else and_then (py_index xs p) (\<lambda>j. Inr (Suc j)))"

text \<open>\<^verbatim>\<open>indep_map = [indep.index(p) for p in boundary_points]\<close>.\<close>

fun index_each :: "real list \<Rightarrow> real list \<Rightarrow> error + nat list" where
  "index_each indep [] = Inr []"
| "index_each indep (p # ps) =
     and_then (py_index indep p) (\<lambda>j.
     and_then (index_each indep ps) (\<lambda>js. Inr (j # js)))"

text \<open>
  \<^verbatim>\<open>_get_u(z)\<close>: \<open>z\<close> is reshaped to \<open>mstar\<close> rows of \<open>len(indep)\<close> columns, and column
  \<open>i\<close> of the new array \<open>u\<close> (\<^verbatim>\<open>np.empty\<close>: the contents \<open>mem\<close>) becomes column
  \<open>indep_map[i]\<close> of \<open>z\<close>.
\<close>

fun get_u_loop :: "nat \<Rightarrow> nat \<Rightarrow> matrix \<Rightarrow> matrix \<Rightarrow> nat \<Rightarrow> nat list \<Rightarrow> error + matrix" where
  "get_u_loop mstar nindep z u i [] = Inr u"
| "get_u_loop mstar nindep z u i (j # js) =
     (if i \<ge> mstar \<or> j \<ge> nindep then Inl (IndexError ''index is out of bounds'')
      else get_u_loop mstar nindep z (\<lambda>k c. if c = i then z k j else u k c) (Suc i) js)"

definition get_u :: "matrix \<Rightarrow> nat \<Rightarrow> nat list \<Rightarrow> nat \<Rightarrow> real list \<Rightarrow> error + matrix" where
  "get_u mem mstar indep_map nindep z =
     (if length z \<noteq> mstar * nindep then Inl (ValueError ''cannot reshape array'')
      else get_u_loop mstar nindep (\<lambda>k j. z ! (k * nindep + j)) mem 0 indep_map)"

text \<open>
  \<^verbatim>\<open>_dgsub(z)\<close>: in the array \<open>d\<close> of zeros, of shape \<open>(mstar, mstar, len(indep))\<close>, the
  loop writes \<^verbatim>\<open>d[i,:,j] = dg[i,:]\<close> for \<open>j = indep_map[i]\<close>; the result is \<open>d\<close> reshaped
  to \<open>mstar\<close> rows of \<open>mstar * len(indep)\<close> columns.
\<close>

fun dgsub_loop ::
  "nat \<Rightarrow> nat \<Rightarrow> matrix \<Rightarrow> (nat \<Rightarrow> nat \<Rightarrow> nat \<Rightarrow> real) \<Rightarrow> nat \<Rightarrow> nat list
     \<Rightarrow> error + (nat \<Rightarrow> nat \<Rightarrow> nat \<Rightarrow> real)" where
  "dgsub_loop mstar nindep dg d i [] = Inr d"
| "dgsub_loop mstar nindep dg d i (j # js) =
     (if i \<ge> mstar \<or> j \<ge> nindep then Inl (IndexError ''index is out of bounds'')
      else dgsub_loop mstar nindep dg
             (\<lambda>a k c. if a = i \<and> c = j then dg i k else d a k c) (Suc i) js)"

definition expanded_dgsub ::
  "(matrix \<Rightarrow> matrix) \<Rightarrow> matrix \<Rightarrow> nat \<Rightarrow> nat list \<Rightarrow> nat \<Rightarrow> real list
     \<Rightarrow> error + real list list" where
  "expanded_dgsub dgsub mem mstar indep_map nindep z =
     and_then (get_u mem mstar indep_map nindep z) (\<lambda>u.
     and_then (dgsub_loop mstar nindep (dgsub u) (\<lambda>a k c. 0) 0 indep_map) (\<lambda>d.
     Inr (map (\<lambda>i. map (\<lambda>col. d i (col div nindep) (col mod nindep)) [0..<mstar * nindep])
            [0..<mstar])))"

text \<open>
  The call of \<^verbatim>\<open>check_jacobian\<close> and the \<^verbatim>\<open>ValueError\<close> when it returns false;
  \<open>mstar = sum(degrees)\<close>.
\<close>

definition check_jacobians_boundary ::
  "(nat \<Rightarrow> (real list \<Rightarrow> error + real list) \<Rightarrow> (real list \<Rightarrow> error + real list list) \<Rightarrow> bool)
     \<Rightarrow> matrix \<Rightarrow> real list \<Rightarrow> int list \<Rightarrow> (matrix \<Rightarrow> real list) \<Rightarrow> (matrix \<Rightarrow> matrix)
     \<Rightarrow> error option" where
  "check_jacobians_boundary check_jacobian mem bps degs gsub dgsub =
     (let mstar = nat (sum_list degs);
          indep = np_unique bps
      in case index_each indep bps of
           Inl e \<Rightarrow> Some e
         | Inr indep_map \<Rightarrow>
             if \<not> check_jacobian (mstar * length indep)
                    (\<lambda>z. and_then (get_u mem mstar indep_map (length indep) z)
                           (\<lambda>u. Inr (gsub u)))
                    (expanded_dgsub dgsub mem mstar indep_map (length indep))
               then Some (ValueError ''dgsub may be invalid'')
             else None)"

section \<open>Example inputs\<close>

text \<open>
  A second-order equation on \<open>[0, 1]\<close> with one boundary condition at each end, a
  tolerance on the first unknown only, and room for three mesh points.
\<close>

definition ex_env :: environment where
  "ex_env = \<lparr> c_adapter = (\<lambda>p. p), empty_int32 = (\<lambda>_. 0), empty_float64 = (\<lambda>_. 0) \<rparr>"

definition ex_args :: solve_args where
  "ex_args = \<lparr> boundary_points = PyList [0, 1], degrees = [2], left = None, right = None,
      is_linear = False, initial_guess = GuessNone, coarsen_initial_guess_mesh = True,
      initial_mesh = MeshNone, tolerances = SeqList [1 / 1000, 0],
      adaptive_mesh_selection = True, verbosity = 5, collocation_points = None,
      extra_fixed_points = SeqNone, problem_regularity = 0, maximum_mesh_size = 3,
      is_complex = False \<rparr>"

text \<open>
  A solution on the mesh \<open>[0, 1]\<close>, and a kernel stub that writes it at the start of the
  two work arrays and returns a given status.
\<close>

definition ex_solution :: Solution where
  "ex_solution = \<lparr> sol_ncomp = 1, sol_mstar = 2, sol_nmesh = 2,
      sol_ispace = [1, 4, 1, 2, 0, 0, 4, 0], sol_fspace = [0, 1, 7, 9] \<rparr>"


text \<open>The example problem with a negative tolerance on the first unknown.\<close>

definition neg_tol_args :: solve_args where
  "neg_tol_args = ex_args\<lparr>tolerances := SeqList [- 1, 1 / 2]\<rparr>"

text \<open>
  The example problem continued from \<open>ex_solution\<close> onto the mesh \<open>[0, 1/2, 1]\<close>,
  without coarsening.
\<close>

definition continue_args :: solve_args where
  "continue_args = ex_args\<lparr>initial_guess := GuessSolution ex_solution,
      coarsen_initial_guess_mesh := False, initial_mesh := MeshPoints [0, 1 / 2, 1]\<rparr>"

text \<open>
  The same continuation, with the mesh in a NumPy array, as \<^verbatim>\<open>Solution.mesh\<close> gives it.
\<close>

definition array_mesh_args :: solve_args where
  "array_mesh_args = continue_args\<lparr>initial_mesh := MeshArray [0, 1 / 2, 1]\<rparr>"



text \<open>
  A state with an outer solve in progress, and a kernel that succeeds and overwrites every
  variable of the COMMON blocks.
\<close>

definition ex_state :: "int colnew_state" where
  "ex_state = \<lparr> colnew_stack = [], colnew_depth = 1,
      colnew_commons = [\<lparr> cb_names = [''n'', ''k''],
                          cb_vars = (\<lambda>name. if name = ''n'' then 3 else 5) \<rparr>] \<rparr>"

definition clobber_kernel :: "int colnew_state kernel" where
  "clobber_kernel ka s =
     ((1, [1, 4, 1, 2, 0, 0, 4, 0] @ drop 8 (k_ispace ka), [0, 1, 7, 9] @ drop 4 (k_fspace ka)),
      s\<lparr>colnew_commons := map (\<lambda>com. com\<lparr>cb_vars := (\<lambda>_. 0)\<rparr>) (colnew_commons s)\<rparr>)"

text \<open>
  A kernel one of whose callbacks runs a whole \<^verbatim>\<open>solve\<close> (with the kernel \<open>inner\<close>)
  before the kernel returns.
\<close>

definition kernel_with_nested_solve ::
  "environment \<Rightarrow> 'v colnew_state kernel \<Rightarrow> solve_args \<Rightarrow> 'v colnew_state kernel" where
  "kernel_with_nested_solve env inner a ka s =
     ((1, k_ispace ka, k_fspace ka), snd (solve env inner a s))"


text \<open>
  The example problem with its two boundary points in descending order, as a \<^verbatim>\<open>float64\<close>
  array and as a list.
\<close>

definition unsorted_array_args :: solve_args where
  "unsorted_array_args =
     ex_args\<lparr>boundary_points := NdArray [1 / 2, 1 / 5], left := Some 0, right := Some 1\<rparr>"

definition unsorted_list_args :: solve_args where
  "unsorted_list_args =
     ex_args\<lparr>boundary_points := PyList [1 / 2, 1 / 5], left := Some 0, right := Some 1\<rparr>"

text \<open>
  The example problem continued from \<open>ex_solution\<close>, without coarsening and without
  mesh selection, with \<^verbatim>\<open>initial_mesh=5\<close>.
\<close>

definition count_mesh_args :: solve_args where
  "count_mesh_args = ex_args\<lparr>initial_guess := GuessSolution ex_solution,
      coarsen_initial_guess_mesh := False, initial_mesh := MeshCount 5,
      adaptive_mesh_selection := False\<rparr>"

section \<open>Basic facts\<close>

lemma and_then_simps [simp]:
  "and_then (Inl e) f = Inl e"
  "and_then (Inr v) f = f v"
  by (simp_all add: and_then_def)

lemma and_then_eq_Inr:
  "and_then m f = Inr y \<longleftrightarrow> (m = Inr (projr m) \<and> f (projr m) = Inr y)"
  by (cases m) simp_all

lemma and_then_Inr_iff:
  "and_then m f = Inr y \<longleftrightarrow> (\<exists>v. m = Inr v \<and> f v = Inr y)"
  by (cases m) simp_all

lemma and_then_eq_Inl:
  "and_then m f = Inl e \<longleftrightarrow> m = Inl e \<or> (\<exists>v. m = Inr v \<and> f v = Inl e)"
  by (cases m) simp_all

lemma if_Inl_eq_Inr:
  "(if c then Inl e else m) = Inr y \<longleftrightarrow> \<not> c \<and> m = Inr y"
  by simp

lemma if_Inl_eq_Inl:
  "(if c then Inl e' else m) = Inl e \<longleftrightarrow> (c \<and> e' = e) \<or> (\<not> c \<and> m = Inl e)"
  by simp

lemma is_ValueError_simps [simp]:
  "is_ValueError (ValueError msg)"
  "\<not> is_ValueError (TypeError msg)"
  "\<not> is_ValueError (IndexError msg)"
  "\<not> is_ValueError (OverflowError msg)"
  by (simp_all add: is_ValueError_def)

lemma is_OverflowError_simps [simp]:
  "is_OverflowError (OverflowError msg)"
  "\<not> is_OverflowError (ValueError msg)"
  "\<not> is_OverflowError (TypeError msg)"
  "\<not> is_OverflowError (IndexError msg)"
  by (simp_all add: is_OverflowError_def)

lemma is_ValueError_iff: "is_ValueError e \<longleftrightarrow> (\<exists>msg. e = ValueError msg)"
  by (cases e) (simp_all add: is_ValueError_def)

lemma py_slice_to_take: "0 \<le> n \<Longrightarrow> py_slice_to xs n = take (nat n) xs"
  by (simp add: py_slice_to_def)

lemma length_np_setslice:
  "np_setslice arr lo hi src = Inr arr' \<Longrightarrow> lo \<le> hi \<Longrightarrow> length arr' = length arr"
  by (auto simp: np_setslice_def Let_def min_def split: if_splits)

lemma length_np_empty: "np_empty mem n = Inr arr \<Longrightarrow> int (length arr) = n"
  by (auto simp: np_empty_def split: if_splits)

lemma wrap32_id: "- 2147483648 \<le> x \<Longrightarrow> x < 2147483648 \<Longrightarrow> wrap32 x = x"
  by (simp add: wrap32_def)

lemma np_int32_id: "- 2147483648 \<le> x \<Longrightarrow> x < 2147483648 \<Longrightarrow> np_int32 x = Inr x"
  by (simp add: np_int32_def fits_long_def wrap32_id)

lemma np_array_int32_eq:
  "np_array_int32 xs =
     (if list_all fits_long xs then Inr (map wrap32 xs)
      else Inl (OverflowError ''Python int too large to convert to C long''))"
  by (induction xs) (simp_all add: np_int32_def)

lemma np_int32_Inr: "np_int32 x = Inr w \<Longrightarrow> w = wrap32 x"
  by (auto simp: np_int32_def split: if_splits)

lemma np_array_int32_Inr: "np_array_int32 xs = Inr ws \<Longrightarrow> ws = map wrap32 xs"
proof (induction xs arbitrary: ws)
  case Nil
  then show ?case by simp
next
  case (Cons x xs)
  then show ?case
    by (auto simp: and_then_Inr_iff dest: np_int32_Inr)
qed

lemma np_setitem_int32_Inr:
  "np_setitem_int32 arr i x = Inr arr' \<Longrightarrow> arr' = arr[i := wrap32 x]"
  by (auto simp: np_setitem_int32_def and_then_Inr_iff dest: np_int32_Inr)

lemma initial_ipar_Inr:
  assumes "initial_ipar lin cp ltol fspace ispace verb reg fixpnt = Inr ipar"
  shows "ipar = [wrap32 (1 - (if lin then 1 else 0)), wrap32 cp, wrap32 10,
                 wrap32 (int (length ltol)), wrap32 (int (length fspace)),
                 wrap32 (int (length ispace)), wrap32 (1 - verb), wrap32 0, wrap32 0,
                 wrap32 reg, wrap32 (int (length fixpnt))]"
  using np_array_int32_Inr [OF assms [unfolded initial_ipar_def]] by simp

lemma length_initial_ipar:
  "initial_ipar lin cp ltol fspace ispace verb reg fixpnt = Inr ipar \<Longrightarrow> length ipar = 11"
  by (drule initial_ipar_Inr) simp

lemma default_collocation_points_value:
  "default_collocation_points cp degs = Inr k \<Longrightarrow> k = (case cp of None \<Rightarrow> 0 | Some c \<Rightarrow> c)"
  by (auto simp: default_collocation_points_def split: option.splits if_splits)

subsection \<open>The two sections that write \<^verbatim>\<open>ipar\<close> and the work arrays\<close>

lemma apply_initial_guess_length:
  assumes "apply_initial_guess g m c ipar ispace fspace = Inr (ipar1, ispace1, fspace1)"
  shows "length ispace1 = length ispace \<and> length fspace1 = length fspace
       \<and> length ipar1 = length ipar"
  using assms
  by (auto simp: apply_initial_guess_def Let_def and_then_Inr_iff
      split: guess_arg.splits if_splits
      dest!: length_np_setslice np_setitem_int32_Inr)

lemma apply_initial_mesh_length:
  assumes "apply_initial_mesh m ad ipar fspace = Inr (ipar1, fspace1)"
  shows "length fspace1 = length fspace \<and> length ipar1 = length ipar"
  using assms
  by (auto simp: apply_initial_mesh_def Let_def and_then_Inr_iff split_beta
      split: option.splits if_splits
      dest!: length_np_setslice np_setitem_int32_Inr)

lemma apply_initial_guess_ipar:
  assumes "apply_initial_guess g m c ipar ispace fspace = Inr (ipar1, ispace1, fspace1)"
    and "i \<noteq> 2" and "i \<noteq> 8"
  shows "ipar1 ! i = ipar ! i"
  using assms
  by (auto simp: apply_initial_guess_def Let_def and_then_Inr_iff
      split: guess_arg.splits if_splits
      dest!: np_setitem_int32_Inr)

lemma apply_initial_mesh_ipar:
  assumes "apply_initial_mesh m ad ipar fspace = Inr (ipar1, fspace1)"
    and "i \<noteq> 2" and "i \<noteq> 7"
  shows "ipar1 ! i = ipar ! i"
  using assms
  by (auto simp: apply_initial_mesh_def Let_def and_then_Inr_iff split_beta
      split: option.splits if_splits
      dest!: np_setitem_int32_Inr)

subsection \<open>A call that reaches the kernel has passed every section\<close>

lemma colnew_solve_args_InrE:
  assumes "colnew_solve_args env a = Inr ka"
  obtains bp degs tols0 cp no_tols no_extra tols extra lft rgt ispace fspace zeta bp' fixpnt
      ipar ipar1 ispace1 fspace1 ipar2 fspace2
  where "adapt env a = (bp, degs, tols0)"
    and "check_degrees degs = None"
    and "default_collocation_points (collocation_points a) degs = Inr cp"
    and "seq_eq_None (extra_fixed_points a) = Inr no_extra"
    and "seq_eq_None tols0 = Inr no_tols"
    and "tols = (if no_tols then replicate (nat (sum_list degs)) 0 else seq_elems tols0)"
    and "extra = (if no_extra then [] else seq_elems (extra_fixed_points a))"
    and "(case left a of None \<Rightarrow> py_min (elems bp) | Some l \<Rightarrow> Inr l) = Inr lft"
    and "(case right a of None \<Rightarrow> py_max (elems bp) | Some r \<Rightarrow> Inr r) = Inr rgt"
    and "np_empty (empty_int32 env)
           (maximum_mesh_size a * nsizei cp (int (length degs)) (sum_list degs)) = Inr ispace"
    and "np_empty (empty_float64 env)
           (maximum_mesh_size a * nsizef cp (int (length degs)) (sum_list degs)) = Inr fspace"
    and "check_boundary_points bp (sum_list degs) lft rgt = Inr (zeta, bp')"
    and "fixpnt = fixed_points bp' extra lft rgt"
    and "int (length tols) = sum_list degs"
    and "initial_ipar (is_linear a) cp (fst (active_tolerances tols)) fspace ispace
           (clamp_verbosity (verbosity a)) (problem_regularity a) fixpnt = Inr ipar"
    and "apply_initial_guess (initial_guess a) (initial_mesh a) (coarsen_initial_guess_mesh a)
           ipar ispace fspace = Inr (ipar1, ispace1, fspace1)"
    and "apply_initial_mesh (initial_mesh a) (adaptive_mesh_selection a) ipar1 fspace1
           = Inr (ipar2, fspace2)"
    and "ka = \<lparr> k_degrees = degs, k_left = lft, k_right = rgt, k_zeta = zeta,
                k_ipar = ipar2, k_ltol = fst (active_tolerances tols),
                k_tol = snd (active_tolerances tols),
                k_fixpnt = (if length fixpnt = 0 then [0] else fixpnt),
                k_ispace = ispace1, k_fspace = fspace2 \<rparr>"
proof -
  obtain bp degs tols0 where ad: "adapt env a = (bp, degs, tols0)"
    by (cases "adapt env a") auto
  have cd: "check_degrees degs = None"
    using assms unfolding colnew_solve_args_def ad
    by (cases "check_degrees degs") (simp_all add: Let_def)
  define no_extra where "no_extra = projr (seq_eq_None (extra_fixed_points a))"
  define no_tols where "no_tols = projr (seq_eq_None tols0)"
  define tols
    where "tols = (if no_tols then replicate (nat (sum_list degs)) 0 else seq_elems tols0)"
  define extra
    where "extra = (if no_extra then [] else seq_elems (extra_fixed_points a))"
  define cp where "cp = projr (default_collocation_points (collocation_points a) degs)"
  define lft where "lft = projr (case left a of None \<Rightarrow> py_min (elems bp) | Some l \<Rightarrow> Inr l)"
  define rgt
    where "rgt = projr (case right a of None \<Rightarrow> py_max (elems bp) | Some r \<Rightarrow> Inr r)"
  define ispace where "ispace = projr (np_empty (empty_int32 env)
           (maximum_mesh_size a * nsizei cp (int (length degs)) (sum_list degs)))"
  define fspace where "fspace = projr (np_empty (empty_float64 env)
           (maximum_mesh_size a * nsizef cp (int (length degs)) (sum_list degs)))"
  define zb where "zb = projr (check_boundary_points bp (sum_list degs) lft rgt)"
  define fixpnt where "fixpnt = fixed_points (snd zb) extra lft rgt"
  define ipar where "ipar = projr (initial_ipar (is_linear a) cp (fst (active_tolerances tols))
           fspace ispace (clamp_verbosity (verbosity a)) (problem_regularity a) fixpnt)"
  define g where "g = projr (apply_initial_guess (initial_guess a) (initial_mesh a)
           (coarsen_initial_guess_mesh a) ipar ispace fspace)"
  define m where "m = projr (apply_initial_mesh (initial_mesh a) (adaptive_mesh_selection a)
           (fst g) (snd (snd g)))"
  note defs = no_extra_def no_tols_def tols_def extra_def cp_def lft_def rgt_def ispace_def
    fspace_def zb_def fixpnt_def ipar_def g_def m_def
  have main:
    "default_collocation_points (collocation_points a) degs = Inr cp
     \<and> seq_eq_None (extra_fixed_points a) = Inr no_extra
     \<and> seq_eq_None tols0 = Inr no_tols
     \<and> (case left a of None \<Rightarrow> py_min (elems bp) | Some l \<Rightarrow> Inr l) = Inr lft
     \<and> (case right a of None \<Rightarrow> py_max (elems bp) | Some r \<Rightarrow> Inr r) = Inr rgt
     \<and> np_empty (empty_int32 env)
           (maximum_mesh_size a * nsizei cp (int (length degs)) (sum_list degs)) = Inr ispace
     \<and> np_empty (empty_float64 env)
           (maximum_mesh_size a * nsizef cp (int (length degs)) (sum_list degs)) = Inr fspace
     \<and> check_boundary_points bp (sum_list degs) lft rgt = Inr zb
     \<and> int (length tols) = sum_list degs
     \<and> initial_ipar (is_linear a) cp (fst (active_tolerances tols)) fspace ispace
           (clamp_verbosity (verbosity a)) (problem_regularity a) fixpnt = Inr ipar
     \<and> apply_initial_guess (initial_guess a) (initial_mesh a) (coarsen_initial_guess_mesh a)
           ipar ispace fspace = Inr g
     \<and> apply_initial_mesh (initial_mesh a) (adaptive_mesh_selection a) (fst g) (snd (snd g))
           = Inr m
     \<and> ka = \<lparr> k_degrees = degs, k_left = lft, k_right = rgt, k_zeta = fst zb,
                k_ipar = fst m, k_ltol = fst (active_tolerances tols),
                k_tol = snd (active_tolerances tols),
                k_fixpnt = (if length fixpnt = 0 then [0] else fixpnt),
                k_ispace = fst (snd g), k_fspace = snd m \<rparr>"
    using assms cd unfolding colnew_solve_args_def ad prod.case defs
    by (simp add: and_then_eq_Inr Let_def split_beta if_Inl_eq_Inr del: One_nat_def)
  show ?thesis
    by (rule that [of bp degs tols0 cp no_extra no_tols tols extra lft rgt ispace fspace
          "fst zb" "snd zb" fixpnt ipar "fst g" "fst (snd g)" "snd (snd g)" "fst m" "snd m"])
       (use main ad cd in \<open>simp_all add: tols_def extra_def fixpnt_def\<close>)
qed

lemma colnew_solve_args_ipar:
  assumes "colnew_solve_args env a = Inr ka"
  shows "length (k_ipar ka) = 11"
    and "k_ipar ka ! 3 = wrap32 (int (length (k_ltol ka)))"
    and "k_ipar ka ! 4 = wrap32 (int (length (k_fspace ka)))"
    and "k_ipar ka ! 5 = wrap32 (int (length (k_ispace ka)))"
    and "k_ipar ka ! 6 = 1 - clamp_verbosity (verbosity a)"
proof -
  from assms obtain cp fspace ispace ipar ipar1 ispace1 fspace1 ipar2 fspace2 tols fixpnt
    where ip: "initial_ipar (is_linear a) cp (fst (active_tolerances tols)) fspace ispace
              (clamp_verbosity (verbosity a)) (problem_regularity a) fixpnt = Inr ipar"
      and g: "apply_initial_guess (initial_guess a) (initial_mesh a)
           (coarsen_initial_guess_mesh a) ipar ispace fspace = Inr (ipar1, ispace1, fspace1)"
      and m: "apply_initial_mesh (initial_mesh a) (adaptive_mesh_selection a) ipar1 fspace1
           = Inr (ipar2, fspace2)"
      and ka: "k_ipar ka = ipar2" "k_ltol ka = fst (active_tolerances tols)"
        "k_ispace ka = ispace1" "k_fspace ka = fspace2"
    by (elim colnew_solve_args_InrE) simp
  note ipar = initial_ipar_Inr [OF ip]
  have lg: "length ispace1 = length ispace" "length fspace1 = length fspace"
    "length ipar1 = length ipar"
    using apply_initial_guess_length [OF g] by simp_all
  have lm: "length fspace2 = length fspace1" "length ipar2 = length ipar1"
    using apply_initial_mesh_length [OF m] by simp_all
  have nth: "ipar2 ! i = ipar ! i" if "i \<noteq> 2" "i \<noteq> 7" "i \<noteq> 8" for i
    using apply_initial_mesh_ipar [OF m, of i] apply_initial_guess_ipar [OF g, of i] that
    by simp
  have small: "wrap32 (1 - clamp_verbosity v) = 1 - clamp_verbosity v" for v
    by (rule wrap32_id) (simp_all add: clamp_verbosity_def)
  show "length (k_ipar ka) = 11" using lg lm ka ipar by simp
  show "k_ipar ka ! 3 = wrap32 (int (length (k_ltol ka)))"
    using nth [of 3] ka by (simp add: ipar)
  show "k_ipar ka ! 4 = wrap32 (int (length (k_fspace ka)))"
    using nth [of 4] ka lg lm by (simp add: ipar)
  show "k_ipar ka ! 5 = wrap32 (int (length (k_ispace ka)))"
    using nth [of 5] ka lg lm by (simp add: ipar)
  show "k_ipar ka ! 6 = 1 - clamp_verbosity (verbosity a)"
    using nth [of 6] ka by (simp add: ipar small)
qed

subsection \<open>The exceptions raised before the kernel is called\<close>

lemma check_degrees_error: "check_degrees degs = Some e \<Longrightarrow> is_ValueError e"
  by (auto simp: check_degrees_def Let_def split: if_splits)

lemma default_collocation_points_error:
  "default_collocation_points cp degs = Inl e \<Longrightarrow> is_ValueError e"
  by (auto simp: default_collocation_points_def split: option.splits if_splits)

lemma py_min_error: "py_min xs = Inl e \<Longrightarrow> is_ValueError e"
  by (cases xs) auto

lemma py_max_error: "py_max xs = Inl e \<Longrightarrow> is_ValueError e"
  by (cases xs) auto

lemma np_empty_error: "np_empty mem n = Inl e \<Longrightarrow> is_ValueError e"
  by (auto simp: np_empty_def split: if_splits)

lemma np_setslice_error: "np_setslice arr lo hi src = Inl e \<Longrightarrow> is_ValueError e"
  by (auto simp: np_setslice_def Let_def split: if_splits)

lemma check_boundary_points_error:
  "check_boundary_points bp mstar lft rgt = Inl e \<Longrightarrow> is_ValueError e"
  by (auto simp: check_boundary_points_def Let_def split: if_splits)

lemma array_truth_error: "array_truth bs = Inl e \<Longrightarrow> is_ValueError e"
  by (cases bs rule: array_truth.cases) auto

lemma seq_eq_None_error: "seq_eq_None x = Inl e \<Longrightarrow> is_ValueError e"
  by (cases x) (auto dest: array_truth_error)

lemma mesh_eq_None_error: "mesh_eq_None m = Inl e \<Longrightarrow> is_ValueError e"
  by (cases m) (auto dest: array_truth_error)

lemma mesh_ne_None_error: "mesh_ne_None m = Inl e \<Longrightarrow> is_ValueError e"
  by (cases m) (auto dest: array_truth_error)

lemma np_int32_error: "np_int32 x = Inl e \<Longrightarrow> is_OverflowError e"
  by (auto simp: np_int32_def split: if_splits)

lemma np_array_int32_error: "np_array_int32 xs = Inl e \<Longrightarrow> is_OverflowError e"
  by (induction xs) (auto simp: and_then_eq_Inl dest: np_int32_error)

lemma np_setitem_int32_error: "np_setitem_int32 arr i x = Inl e \<Longrightarrow> is_OverflowError e"
  by (auto simp: np_setitem_int32_def and_then_eq_Inl dest: np_int32_error)

lemma initial_ipar_error:
  "initial_ipar lin cp ltol fspace ispace verb reg fixpnt = Inl e \<Longrightarrow> is_OverflowError e"
  unfolding initial_ipar_def by (rule np_array_int32_error)

text \<open>
  Past \<^verbatim>\<open>int(initial_mesh)\<close>, the mesh is \<^verbatim>\<open>None\<close> or has no \<^verbatim>\<open>int\<close>; if it then
  passes for a mesh, it is a list of points.
\<close>

lemma mesh_int_stage:
  assumes "(case mesh_int m of
              Some c \<Rightarrow> and_then (np_setitem_int32 ipar 2 c)
                          (\<lambda>ipar0. Inr (ipar0[7 := 0], MeshNone))
            | None \<Rightarrow> Inr (ipar, m)) = Inr (ipar1, mesh1)"
  shows "mesh_int mesh1 = None"
    and "mesh_int m = None \<longrightarrow> ipar1 = ipar \<and> mesh1 = m"
    and "\<forall>c. mesh_int m = Some c \<longrightarrow> ipar1 = ipar[2 := wrap32 c, 7 := 0] \<and> mesh1 = MeshNone"
  using assms
  by (auto simp: and_then_Inr_iff split: option.splits dest!: np_setitem_int32_Inr)

lemma mesh_given:
  assumes "mesh_int m = None" and "mesh_ne_None m = Inr True"
  shows "\<exists>pts. m = MeshPoints pts"
proof (cases m)
  case (MeshArray pts)
  show ?thesis
  proof (cases pts)
    case Nil
    then show ?thesis using assms MeshArray by simp
  next
    case (Cons x xs)
    then show ?thesis using assms MeshArray by (cases xs) (simp_all split: if_splits)
  qed
qed (use assms in auto)

lemma apply_initial_mesh_error:
  assumes "apply_initial_mesh m ad ipar fspace = Inl e"
  shows "is_ValueError e \<or> is_OverflowError e"
proof -
  let ?first = "case mesh_int m of
          Some c \<Rightarrow> and_then (np_setitem_int32 ipar 2 c) (\<lambda>ipar0. Inr (ipar0[7 := 0], MeshNone))
        | None \<Rightarrow> Inr (ipar, m)"
  show ?thesis
  proof (cases ?first)
    case (Inl e')
    then have "is_OverflowError e'"
      by (auto simp: and_then_eq_Inl split: option.splits dest: np_setitem_int32_error)
    then show ?thesis
      using assms Inl by (simp add: apply_initial_mesh_def)
  next
    case (Inr r)
    obtain ipar1 mesh1 where r: "r = (ipar1, mesh1)"
      by (cases r)
    show ?thesis
    proof (cases "mesh_ne_None mesh1")
      case (Inl e')
      then show ?thesis
        using assms Inr r by (auto simp: apply_initial_mesh_def dest: mesh_ne_None_error)
    next
      case given: (Inr b)
      show ?thesis
      proof (cases b)
        case True
        then obtain pts where "mesh1 = MeshPoints pts"
          using mesh_given [of mesh1] mesh_int_stage(1) [OF Inr [unfolded r]] given
          by auto
        then show ?thesis
          using assms Inr r given True
          by (auto simp: apply_initial_mesh_def and_then_eq_Inl
              dest: np_setslice_error np_setitem_int32_error split: if_splits)
      next
        case False
        then show ?thesis
          using assms Inr r given by (auto simp: apply_initial_mesh_def split: if_splits)
      qed
    qed
  qed
qed

lemma mesh_eq_None_True: "mesh_eq_None m = Inr True \<longleftrightarrow> m = MeshNone"
  by (cases m) (auto elim: array_truth.elims)

lemma mesh_len_error:
  "mesh_len m = Inl e \<Longrightarrow>
     (m = MeshNone \<and> e = TypeError ''object of type NoneType has no len()'')
     \<or> (\<exists>n. m = MeshCount n \<and> e = TypeError ''object of type int has no len()'')"
  by (cases m) auto

lemma apply_initial_guess_error:
  assumes "apply_initial_guess g m c ipar ispace fspace = Inl e"
  shows "is_ValueError e \<or> is_OverflowError e
       \<or> (\<exists>sol. g = GuessSolution sol \<and>
            ((\<exists>n. m = MeshCount n \<and> \<not> c \<and> e = TypeError ''object of type int has no len()'')
             \<or> (m = MeshNone \<and> e = IndexError ''index 0 is out of bounds'')))"
proof (cases g)
  case (GuessSolution sol)
  show ?thesis
  proof (cases "mesh_eq_None m")
    case (Inl e')
    then show ?thesis
      using assms GuessSolution
      by (auto simp: apply_initial_guess_def dest: mesh_eq_None_error)
  next
    case (Inr b)
    show ?thesis
    proof (cases b)
      case True
      then have "m = MeshNone"
        using Inr by (simp add: mesh_eq_None_True)
      then show ?thesis
        using assms GuessSolution
        by (auto simp: apply_initial_guess_def and_then_eq_Inl Let_def
            dest: np_setslice_error split: if_splits)
    next
      case False
      then have "m \<noteq> MeshNone"
        using Inr by auto
      then show ?thesis
        using assms GuessSolution Inr False
        by (auto simp: apply_initial_guess_def and_then_eq_Inl
            dest: np_setslice_error np_setitem_int32_error dest!: mesh_len_error
            split: if_splits)
    qed
  qed
qed (use assms in \<open>auto simp: apply_initial_guess_def\<close>)

lemma check_degrees_case_error:
  "(case check_degrees degs of Some e \<Rightarrow> Inl e | None \<Rightarrow> Inr ()) = Inl e
     \<Longrightarrow> is_ValueError e"
  by (auto split: option.splits dest: check_degrees_error)

lemma left_default_error:
  "(case l of None \<Rightarrow> py_min xs | Some x \<Rightarrow> Inr x) = Inl e \<Longrightarrow> is_ValueError e"
  by (auto split: option.splits dest: py_min_error)

lemma right_default_error:
  "(case r of None \<Rightarrow> py_max xs | Some x \<Rightarrow> Inr x) = Inl e \<Longrightarrow> is_ValueError e"
  by (auto split: option.splits dest: py_max_error)

text \<open>
  Every exception before the call of the kernel is a \<^verbatim>\<open>ValueError\<close>, but for the
  \<^verbatim>\<open>OverflowError\<close> of an integer too large for \<^verbatim>\<open>ipar\<close> and for two that the
  "Initial guess" section raises by accident when \<^verbatim>\<open>initial_guess\<close> is a \<^verbatim>\<open>Solution\<close>.
\<close>

lemma colnew_solve_args_error:
  assumes "colnew_solve_args env a = Inl e"
  shows "is_ValueError e \<or> is_OverflowError e
       \<or> (\<exists>sol. initial_guess a = GuessSolution sol \<and>
            ((\<exists>n. initial_mesh a = MeshCount n \<and> \<not> coarsen_initial_guess_mesh a
                  \<and> e = TypeError ''object of type int has no len()'')
             \<or> (initial_mesh a = MeshNone \<and> e = IndexError ''index 0 is out of bounds'')))"
proof -
  obtain bp degs tols0 where ad: "adapt env a = (bp, degs, tols0)"
    by (cases "adapt env a") auto
  show ?thesis
    using assms unfolding colnew_solve_args_def ad prod.case
    apply (simp only: Let_def and_then_eq_Inl split_beta if_Inl_eq_Inl)
    apply (elim disjE exE conjE)
             apply (blast dest: check_degrees_case_error default_collocation_points_error
        left_default_error right_default_error np_empty_error check_boundary_points_error
        apply_initial_mesh_error apply_initial_guess_error seq_eq_None_error
        initial_ipar_error intro: is_ValueError_simps(1))+
    done
qed

subsection \<open>Tolerances\<close>

lemma seq_eq_None_Inr: "seq_eq_None x = Inr b \<Longrightarrow> b \<longleftrightarrow> x = SeqNone"
proof (cases x)
  case (SeqArray xs)
  assume "seq_eq_None x = Inr b"
  then show ?thesis
    using SeqArray by (cases "map (\<lambda>x. False) xs" rule: array_truth.cases) auto
qed auto

lemma check_degrees_None:
  "check_degrees degs = None \<Longrightarrow> 0 < sum_list degs \<and> sum_list degs \<le> 512"
  by (auto simp: check_degrees_def Let_def split: if_splits)

text \<open>
  Tolerances or extra fixed points in a NumPy array of two or more entries: the test
  against \<^verbatim>\<open>None\<close> raises \<^verbatim>\<open>ValueError\<close>, so only lists (and arrays of at most one
  entry) reach the kernel.
\<close>

lemma seq_eq_None_ambiguous:
  "2 \<le> length xs \<Longrightarrow> \<exists>msg. seq_eq_None (SeqArray xs) = Inl (ValueError msg)"
  by (cases "map (\<lambda>x. False) xs" rule: array_truth.cases) auto

lemma array_tolerances_rejected:
  assumes "adapt env a = (bp, degs, SeqArray ts)" and "2 \<le> length ts"
  shows "\<exists>msg. colnew_solve_args env a = Inl (ValueError msg)"
proof (cases "colnew_solve_args env a")
  case (Inr ka)
  then obtain tols0 b where "adapt env a = (bp, degs, tols0)" "seq_eq_None tols0 = Inr b"
    using assms(1) by (elim colnew_solve_args_InrE) simp
  then show ?thesis
    using assms seq_eq_None_ambiguous [OF assms(2)] by simp
next
  case (Inl e)
  have nb: "seq_eq_None (SeqArray ts) \<noteq> Inr v" for v
    using seq_eq_None_ambiguous [OF assms(2)] by auto
  have "is_ValueError e"
    using Inl unfolding colnew_solve_args_def assms(1) prod.case
    apply (simp only: Let_def and_then_eq_Inl split_beta if_Inl_eq_Inl)
    apply (elim disjE exE conjE)
    subgoal by (rule check_degrees_case_error)
    subgoal by (rule default_collocation_points_error)
    subgoal by (rule seq_eq_None_error)
    subgoal by (rule seq_eq_None_error)
    subgoal using nb by blast
    subgoal using nb by blast
    subgoal using nb by blast
    subgoal using nb by blast
    subgoal using nb by blast
    subgoal using nb by blast
    subgoal using nb by blast
    subgoal using nb by blast
    subgoal using nb by blast
    subgoal using nb by blast
    done
  then show ?thesis
    using Inl by (auto simp: is_ValueError_iff)
qed

lemma array_extra_fixed_points_rejected:
  assumes "extra_fixed_points a = SeqArray xs" and "2 \<le> length xs"
  shows "\<exists>msg. colnew_solve_args env a = Inl (ValueError msg)"
proof (cases "colnew_solve_args env a")
  case (Inr ka)
  then obtain b where "seq_eq_None (extra_fixed_points a) = Inr b"
    by (elim colnew_solve_args_InrE)
  then show ?thesis
    using assms seq_eq_None_ambiguous [OF assms(2)] by simp
next
  case (Inl e)
  obtain bp degs tols0 where ad: "adapt env a = (bp, degs, tols0)"
    by (cases "adapt env a") auto
  have nb: "seq_eq_None (extra_fixed_points a) \<noteq> Inr v" for v
    using seq_eq_None_ambiguous [OF assms(2)] assms(1) by auto
  have "is_ValueError e"
    using Inl unfolding colnew_solve_args_def ad prod.case
    apply (simp only: Let_def and_then_eq_Inl split_beta if_Inl_eq_Inl)
    apply (elim disjE exE conjE)
    subgoal by (rule check_degrees_case_error)
    subgoal by (rule default_collocation_points_error)
    subgoal by (rule seq_eq_None_error)
    subgoal using nb by blast
    subgoal using nb by blast
    subgoal using nb by blast
    subgoal using nb by blast
    subgoal using nb by blast
    subgoal using nb by blast
    subgoal using nb by blast
    subgoal using nb by blast
    subgoal using nb by blast
    subgoal using nb by blast
    subgoal using nb by blast
    done
  then show ?thesis
    using Inl by (auto simp: is_ValueError_iff)
qed

lemma filter_by_index:
  "map (\<lambda>i. xs ! i) (filter (\<lambda>i. P (xs ! i)) [0..<length xs]) = filter P xs"
proof -
  have "filter P xs = filter P (map (\<lambda>i. xs ! i) [0..<length xs])"
    by (simp add: map_nth)
  also have "\<dots> = map (\<lambda>i. xs ! i) (filter (\<lambda>i. P (xs ! i)) [0..<length xs])"
    by (simp add: filter_map comp_def)
  finally show ?thesis by simp
qed

lemma active_tolerances_tol: "snd (active_tolerances ts) = filter (\<lambda>t. t > 0) ts"
  by (simp add: active_tolerances_def active_indices_def Let_def filter_by_index)

lemma active_tolerances_ltol:
  "fst (active_tolerances ts) = map (\<lambda>i. int i + 1) (filter (\<lambda>i. ts ! i > 0) [0..<length ts])"
  by (simp add: active_tolerances_def active_indices_def Let_def)

lemma sorted_active_indices: "sorted_wrt (<) (active_indices ts)"
  by (simp add: active_indices_def sorted_wrt_filter)

lemma sorted_ltol: "sorted_wrt (<) (fst (active_tolerances ts))"
proof -
  have "sorted_wrt (\<lambda>x y. int x + 1 < int y + 1) (active_indices ts)"
    by (rule sorted_wrt_mono_rel [OF _ sorted_active_indices]) simp
  then show ?thesis
    by (simp only: active_tolerances_def Let_def fst_conv sorted_wrt_map)
qed

lemma active_tolerances_pairs:
  assumes "j < length (snd (active_tolerances ts))"
  shows "1 \<le> fst (active_tolerances ts) ! j
       \<and> fst (active_tolerances ts) ! j \<le> int (length ts)
       \<and> snd (active_tolerances ts) ! j = ts ! nat (fst (active_tolerances ts) ! j - 1)
       \<and> snd (active_tolerances ts) ! j > 0"
proof -
  have j: "j < length (active_indices ts)"
    using assms by (simp add: active_tolerances_def Let_def)
  then have "active_indices ts ! j \<in> set (active_indices ts)"
    by simp
  then have "active_indices ts ! j < length ts \<and> ts ! (active_indices ts ! j) > 0"
    by (simp add: active_indices_def)
  then show ?thesis
    using j by (simp add: active_tolerances_def Let_def)
qed

lemma ltol_member:
  assumes "i < length ts"
  shows "int i + 1 \<in> set (fst (active_tolerances ts)) \<longleftrightarrow> ts ! i > 0"
  using assms by (auto simp: active_tolerances_def active_indices_def Let_def)


subsection \<open>Verbosity does not decide anything\<close>

lemma and_then_map_sum:
  "and_then (map_sum id h m) f = and_then m (\<lambda>v. f (h v))"
  by (cases m) simp_all

lemma map_sum_and_then:
  "map_sum id h (and_then m f) = and_then m (\<lambda>v. map_sum id h (f v))"
  by (cases m) simp_all

lemma and_then_assoc:
  "and_then (and_then m f) g = and_then m (\<lambda>v. and_then (f v) g)"
  by (cases m) simp_all

lemma map_sum_if:
  "map_sum id h (if c then x else y) = (if c then map_sum id h x else map_sum id h y)"
  by simp

lemma np_int32_clamp_verbosity:
  "np_int32 (1 - clamp_verbosity v) = Inr (1 - clamp_verbosity v)"
  by (rule np_int32_id) (simp_all add: clamp_verbosity_def)

lemma clamp_verbosity_fits:
  "fits_long (1 - clamp_verbosity v)" "wrap32 (1 - clamp_verbosity v) = 1 - clamp_verbosity v"
  by (simp_all add: fits_long_def wrap32_id clamp_verbosity_def)

lemma initial_ipar_verbosity:
  "initial_ipar lin cp ltol fspace ispace (clamp_verbosity v') reg fixpnt =
     map_sum id (\<lambda>ipar. ipar[6 := 1 - clamp_verbosity v'])
       (initial_ipar lin cp ltol fspace ispace (clamp_verbosity v) reg fixpnt)"
  by (simp add: initial_ipar_def np_array_int32_eq clamp_verbosity_fits)

lemma np_setitem_int32_swap:
  "i \<noteq> j \<Longrightarrow> np_setitem_int32 (arr[j := x]) i y =
     map_sum id (\<lambda>r. r[j := x]) (np_setitem_int32 arr i y)"
  by (simp add: np_setitem_int32_def map_sum_and_then list_update_swap [of i j])

lemma apply_initial_guess_verbosity:
  "apply_initial_guess g m c (ipar[6 := x]) ispace fspace =
     map_sum id (\<lambda>r. ((fst r)[6 := x], snd r)) (apply_initial_guess g m c ipar ispace fspace)"
  by (simp add: apply_initial_guess_def Let_def list_update_swap [of 6 2]
      list_update_swap [of 6 8] map_sum_and_then map_sum_if and_then_map_sum
      np_setitem_int32_swap [of 2 6]
      split: guess_arg.splits cong: if_cong)

lemma apply_initial_mesh_verbosity:
  "apply_initial_mesh m ad (ipar[6 := x]) fspace =
     map_sum id (\<lambda>r. ((fst r)[6 := x], snd r)) (apply_initial_mesh m ad ipar fspace)"
  by (simp add: apply_initial_mesh_def Let_def split_def list_update_swap [of 6 2]
      list_update_swap [of 6 7] map_sum_and_then map_sum_if and_then_map_sum
      np_setitem_int32_swap [of 2 6] and_then_assoc
      split: option.splits cong: if_cong)

lemma colnew_solve_args_verbosity:
  "colnew_solve_args env (a\<lparr>verbosity := v\<rparr>) =
     map_sum id (\<lambda>ka. ka\<lparr>k_ipar := (k_ipar ka)[6 := 1 - clamp_verbosity v]\<rparr>)
       (colnew_solve_args env a)"
proof -
  have ad: "adapt env (a\<lparr>verbosity := v\<rparr>) = adapt env a"
    by (simp add: adapt_def)
  obtain bp degs tols0 where ad': "adapt env a = (bp, degs, tols0)"
    by (cases "adapt env a") auto
  show ?thesis
    unfolding colnew_solve_args_def ad ad' prod.case
    by (simp add: Let_def split_def map_sum_and_then map_sum_if
        initial_ipar_verbosity [where v' = v and v = "verbosity a"]
        apply_initial_guess_verbosity apply_initial_mesh_verbosity and_then_map_sum
        cong: if_cong)
qed

subsection \<open>Slice assignment without broadcasting\<close>

lemma np_setslice_exact:
  assumes "np_setslice arr lo (lo + length src) src = Inr arr'"
    and "length src \<noteq> 1"
  shows "take (length src) (drop lo arr') = src \<and> take lo arr' = take lo arr
       \<and> length arr' = length arr"
  using assms
  by (auto simp: np_setslice_def Let_def min_def split: if_splits)

lemma np_setslice_prefix:
  assumes "np_setslice arr 0 (length src) src = Inr arr'"
    and "length src \<noteq> 1"
  shows "take (length src) arr' = src \<and> drop (length src) arr' = drop (length src) arr"
  using assms
  by (auto simp: np_setslice_def Let_def min_def split: if_splits)

lemma apply_initial_guess_fixed_mesh:
  assumes "apply_initial_guess (GuessSolution g) (MeshPoints pts) False ipar ispace fspace
             = Inr (ipar1, ispace1, fspace1)"
  shows "np_setslice ispace (length pts) (length pts + length (sol_ispace g)) (sol_ispace g)
           = Inr ispace1
       \<and> np_setslice fspace (length pts) (length pts + length (sol_fspace g)) (sol_fspace g)
           = Inr fspace1
       \<and> ipar1 = ipar[8 := 4, 2 := wrap32 (int (length pts) - 1)]"
  using assms
  by (auto simp: apply_initial_guess_def and_then_Inr_iff dest!: np_setitem_int32_Inr)

lemma apply_initial_mesh_points:
  assumes "apply_initial_mesh (MeshPoints pts) ad ipar fspace = Inr (ipar1, fspace1)"
  shows "np_setslice fspace 0 (length pts) pts = Inr fspace1
       \<and> ipar1 = ipar[2 := wrap32 (int (length pts) - 1), 7 := (if ad then 1 else 2)]"
  using assms
  by (auto simp: apply_initial_mesh_def and_then_Inr_iff dest!: np_setitem_int32_Inr)

text \<open>
  A \<^verbatim>\<open>Solution\<close> to coarsen and an \<^verbatim>\<open>initial_mesh\<close> of any kind: the call raises before
  the kernel, a \<^verbatim>\<open>ValueError\<close> unless an integer was too large for \<^verbatim>\<open>ipar\<close>.
\<close>

lemma coarsen_fixed_mesh_rejected:
  assumes "initial_guess a = GuessSolution g" and "initial_mesh a \<noteq> MeshNone"
    and "coarsen_initial_guess_mesh a"
  shows "\<exists>e. colnew_solve_args env a = Inl e \<and> (is_ValueError e \<or> is_OverflowError e)"
proof (cases "colnew_solve_args env a")
  case (Inl e)
  then show ?thesis
    using colnew_solve_args_error [OF Inl] assms by auto
next
  case (Inr ka)
  then obtain ipar ispace fspace r
    where "apply_initial_guess (GuessSolution g) (initial_mesh a) True ipar ispace fspace
             = Inr r"
    using assms by (elim colnew_solve_args_InrE) simp
  then show ?thesis
    using assms(2)
    by (auto simp: apply_initial_guess_def and_then_Inr_iff mesh_eq_None_True
        split: if_splits)
qed

subsection \<open>The checks of the boundary points\<close>

lemma colnew_solve_args_boundary_rejected:
  assumes "adapt env a = (bp, degs, tols0)"
    and "\<And>lft rgt.
           (case left a of None \<Rightarrow> py_min (elems bp) | Some l \<Rightarrow> Inr l) = Inr lft \<Longrightarrow>
           (case right a of None \<Rightarrow> py_max (elems bp) | Some r \<Rightarrow> Inr r) = Inr rgt \<Longrightarrow>
           \<exists>e. check_boundary_points bp (sum_list degs) lft rgt = Inl e"
  shows "\<exists>msg. colnew_solve_args env a = Inl (ValueError msg)"
proof (cases "colnew_solve_args env a")
  case (Inr ka)
  from Inr obtain bp' degs' tols0' lft rgt zeta bp''
    where ad: "adapt env a = (bp', degs', tols0')"
      and l: "(case left a of None \<Rightarrow> py_min (elems bp') | Some l \<Rightarrow> Inr l) = Inr lft"
      and r: "(case right a of None \<Rightarrow> py_max (elems bp') | Some r \<Rightarrow> Inr r) = Inr rgt"
      and c: "check_boundary_points bp' (sum_list degs') lft rgt = Inr (zeta, bp'')"
    by (elim colnew_solve_args_InrE)
  from ad assms(1) have eq: "bp' = bp" "degs' = degs" by simp_all
  from assms(2) [OF l [unfolded eq] r [unfolded eq]] c [unfolded eq]
  show ?thesis by simp
next
  case (Inl e)
  have nb: "check_boundary_points bp (sum_list degs) lft rgt \<noteq> Inr v"
    if "(case left a of None \<Rightarrow> py_min (elems bp) | Some l \<Rightarrow> Inr l) = Inr lft"
      and "(case right a of None \<Rightarrow> py_max (elems bp) | Some r \<Rightarrow> Inr r) = Inr rgt"
    for lft rgt v
    using assms(2) [OF that] by auto
  have "is_ValueError e"
    using Inl unfolding colnew_solve_args_def assms(1) prod.case
    apply (simp only: Let_def and_then_eq_Inl split_beta if_Inl_eq_Inl)
    apply (elim disjE exE conjE)
    subgoal by (rule check_degrees_case_error)
    subgoal by (rule default_collocation_points_error)
    subgoal by (rule seq_eq_None_error)
    subgoal by (rule seq_eq_None_error)
    subgoal by (rule left_default_error)
    subgoal by (rule right_default_error)
    subgoal by (rule np_empty_error)
    subgoal by (rule np_empty_error)
    subgoal by (rule check_boundary_points_error)
    subgoal using nb by blast
    subgoal using nb by blast
    subgoal using nb by blast
    subgoal using nb by blast
    subgoal using nb by blast
    done
  then show ?thesis
    using Inl by (auto simp: is_ValueError_iff)
qed

lemma sort_eq_iff_sorted: "sort xs = xs \<longleftrightarrow> sorted xs"
  by (metis sorted_sort sorted_sort_id)

lemma unsorted_list_rejected:
  assumes "adapt env a = (PyList xs, degs, tols0)" and "\<not> sorted xs"
  shows "\<exists>msg. colnew_solve_args env a = Inl (ValueError msg)"
  using assms(2)
  by (intro colnew_solve_args_boundary_rejected [OF assms(1)])
     (simp add: check_boundary_points_def Let_def sort_eq_iff_sorted)

lemma wrong_length_rejected:
  assumes "adapt env a = (bp, degs, tols0)" and "int (length (elems bp)) \<noteq> sum_list degs"
  shows "\<exists>msg. colnew_solve_args env a = Inl (ValueError msg)"
  using assms(2)
  by (intro colnew_solve_args_boundary_rejected [OF assms(1)])
     (simp add: check_boundary_points_def)

lemma out_of_range_rejected:
  assumes "adapt env a = (bp, degs, tols0)"
    and "left a = Some l" and "right a = Some r"
    and "x \<in> set (elems bp)" and "x < l \<or> r < x"
  shows "\<exists>msg. colnew_solve_args env a = Inl (ValueError msg)"
proof (rule colnew_solve_args_boundary_rejected [OF assms(1)])
  fix lft rgt
  assume "(case left a of None \<Rightarrow> py_min (elems bp) | Some l \<Rightarrow> Inr l) = Inr lft"
    and "(case right a of None \<Rightarrow> py_max (elems bp) | Some r \<Rightarrow> Inr r) = Inr rgt"
  then have lr: "lft = l" "rgt = r"
    using assms(2,3) by simp_all
  have "x \<in> set (sort (elems bp))"
    using assms(4) by simp
  moreover have "\<not> (lft \<le> x \<and> x \<le> rgt)"
    using assms(5) lr by auto
  ultimately have "\<not> list_all (\<lambda>z. z \<ge> lft \<and> z \<le> rgt) (sort (elems bp))"
    unfolding list_all_iff by blast
  then show "\<exists>e. check_boundary_points bp (sum_list degs) lft rgt = Inl e"
    by (simp add: check_boundary_points_def Let_def)
qed

lemma check_boundary_points_Inr:
  assumes "check_boundary_points bp mstar lft rgt = Inr (zeta, bp')"
  shows "int (length (elems bp)) = mstar \<and> zeta = sort (elems bp) \<and> elems bp' = zeta
       \<and> list_all (\<lambda>z. z \<ge> lft \<and> z \<le> rgt) zeta
       \<and> (case bp of PyList xs \<Rightarrow> bp' = bp | NdArray xs \<Rightarrow> bp' = NdArray (sort xs))"
  using assms
  by (cases bp) (auto simp: check_boundary_points_def Let_def split: if_splits)

lemma list_passed_as_given:
  assumes "colnew_solve_args env a = Inr ka" and "adapt env a = (PyList xs, degs, tols0)"
  shows "k_zeta ka = xs \<and> sorted xs \<and> int (length xs) = sum_list degs
       \<and> list_all (\<lambda>z. z \<ge> k_left ka \<and> z \<le> k_right ka) xs"
proof -
  from assms obtain lft rgt zeta bp'
    where c: "check_boundary_points (PyList xs) (sum_list degs) lft rgt = Inr (zeta, bp')"
      and ka: "k_zeta ka = zeta" "k_left ka = lft" "k_right ka = rgt"
    by (elim colnew_solve_args_InrE) simp
  note b = check_boundary_points_Inr [OF c, unfolded elems.simps points.case]
  from b have 1: "zeta = sort xs" and 2: "elems bp' = zeta" and 3: "bp' = PyList xs"
    and 4: "int (length xs) = sum_list degs"
    and 5: "list_all (\<lambda>z. z \<ge> lft \<and> z \<le> rgt) zeta"
    by blast+
  have z: "zeta = xs"
    using 2 unfolding 3 elems.simps by (rule sym)
  have s: "sorted zeta"
    unfolding 1 by (rule sorted_sort)
  show ?thesis
    unfolding ka using z s 4 5 by simp
qed

lemma array_passed_sorted:
  assumes "colnew_solve_args env a = Inr ka" and "adapt env a = (NdArray xs, degs, tols0)"
  shows "k_zeta ka = sort xs"
proof -
  from assms obtain lft rgt zeta bp'
    where c: "check_boundary_points (NdArray xs) (sum_list degs) lft rgt = Inr (zeta, bp')"
      and ka: "k_zeta ka = zeta"
    by (elim colnew_solve_args_InrE) simp
  from check_boundary_points_Inr [OF c] ka show ?thesis
    by simp
qed

lemma array_order_never_checked:
  "check_boundary_points (NdArray xs) mstar lft rgt
     \<noteq> Inl (ValueError ''Invalid ordering of boundary points'')"
  by (simp add: check_boundary_points_def Let_def)

subsection \<open>Runs without mesh selection\<close>

lemma apply_initial_mesh_fixed:
  assumes "apply_initial_mesh m False ipar fspace = Inr r"
  shows "\<exists>pts. m = MeshPoints pts"
proof -
  from assms obtain ipar1 mesh1 given
    where st: "(case mesh_int m of
              Some c \<Rightarrow> and_then (np_setitem_int32 ipar 2 c)
                          (\<lambda>ipar0. Inr (ipar0[7 := 0], MeshNone))
            | None \<Rightarrow> Inr (ipar, m)) = Inr (ipar1, mesh1)"
      and given: "mesh_ne_None mesh1 = Inr given"
      and rest: "given"
    by (auto simp: apply_initial_mesh_def and_then_Inr_iff split: if_splits)
  from mesh_given [OF mesh_int_stage(1) [OF st]] given rest
  obtain pts where pts: "mesh1 = MeshPoints pts"
    by auto
  show ?thesis
  proof (cases "mesh_int m")
    case None
    then show ?thesis
      using mesh_int_stage(2) [OF st] pts by auto
  next
    case (Some c)
    then show ?thesis
      using mesh_int_stage(3) [OF st] pts by simp
  qed
qed

lemma non_adaptive_needs_mesh_points:
  assumes "colnew_solve_args env a = Inr ka" and "\<not> adaptive_mesh_selection a"
  shows "(\<exists>pts. initial_mesh a = MeshPoints pts) \<and> k_ipar ka ! 7 = 2"
proof -
  from assms(1) obtain ipar1 fspace1 ipar2 fspace2
    where m: "apply_initial_mesh (initial_mesh a) (adaptive_mesh_selection a) ipar1 fspace1
           = Inr (ipar2, fspace2)"
      and ka: "k_ipar ka = ipar2"
    by (elim colnew_solve_args_InrE) simp
  from m assms(2) obtain pts where pts: "initial_mesh a = MeshPoints pts"
    using apply_initial_mesh_fixed by metis
  have "length ipar2 = 11"
    using colnew_solve_args_ipar(1) [OF assms(1)] ka by simp
  then have "length ipar1 = 11"
    using apply_initial_mesh_length [OF m] by simp
  then have "ipar2 ! 7 = 2"
    using apply_initial_mesh_points [OF m [unfolded pts]] assms(2) by simp
  then show ?thesis
    using pts ka by simp
qed

lemma non_adaptive_without_mesh_fails:
  assumes "\<not> adaptive_mesh_selection a" and "\<forall>pts. initial_mesh a \<noteq> MeshPoints pts"
  shows "\<exists>e. colnew_solve_args env a = Inl e \<and> colnew_solve env colnew a s = (Inl e, s)
           \<and> ((\<forall>g. initial_guess a \<noteq> GuessSolution g)
                \<longrightarrow> is_ValueError e \<or> is_OverflowError e)"
proof (cases "colnew_solve_args env a")
  case (Inr ka)
  then show ?thesis
    using non_adaptive_needs_mesh_points [OF Inr assms(1)] assms(2) by blast
next
  case (Inl e)
  have "colnew_solve env colnew a s = (Inl e, s)"
    using Inl by (simp add: colnew_solve_def)
  moreover have "is_ValueError e \<or> is_OverflowError e"
    if "\<forall>g. initial_guess a \<noteq> GuessSolution g"
    using colnew_solve_args_error [OF Inl] that by blast
  ultimately show ?thesis
    using Inl by blast
qed

subsection \<open>Continuing from a \<^verbatim>\<open>Solution\<close> onto a mesh of the caller's\<close>

text \<open>
  The mesh as a Python list: a call that reaches the kernel was made without coarsening,
  and hands over the mesh at the start of the float array, the floats of the \<^verbatim>\<open>Solution\<close>
  after it and its integers from the same offset on. (A sequence of length 1 is left
  out: NumPy broadcasts it over a slice of any length, an empty one included.)
\<close>

lemma list_mesh_continuation:
  assumes "colnew_solve_args env a = Inr ka"
    and "initial_guess a = GuessSolution g" and "initial_mesh a = MeshPoints pts"
    and "length pts \<noteq> 1" and "length (sol_ispace g) \<noteq> 1" and "length (sol_fspace g) \<noteq> 1"
  shows "\<not> coarsen_initial_guess_mesh a"
    and "take (length pts) (k_fspace ka) = pts"
    and "take (length (sol_fspace g)) (drop (length pts) (k_fspace ka)) = sol_fspace g"
    and "take (length (sol_ispace g)) (drop (length pts) (k_ispace ka)) = sol_ispace g"
    and "k_ipar ka ! 8 = 4"
    and "k_ipar ka ! 2 = wrap32 (int (length pts) - 1)"
    and "k_ipar ka ! 7 = (if adaptive_mesh_selection a then 1 else 2)"
proof -
  show nc: "\<not> coarsen_initial_guess_mesh a"
    using coarsen_fixed_mesh_rejected [of a g env] assms(1,2,3) by auto
  from assms(1) obtain ipar ispace fspace ipar1 ispace1 fspace1 ipar2 fspace2
    where g: "apply_initial_guess (initial_guess a) (initial_mesh a)
           (coarsen_initial_guess_mesh a) ipar ispace fspace = Inr (ipar1, ispace1, fspace1)"
      and m: "apply_initial_mesh (initial_mesh a) (adaptive_mesh_selection a) ipar1 fspace1
           = Inr (ipar2, fspace2)"
      and ka: "k_ipar ka = ipar2" "k_ispace ka = ispace1" "k_fspace ka = fspace2"
    by (elim colnew_solve_args_InrE) simp
  have len: "length ipar2 = 11"
    using colnew_solve_args_ipar(1) [OF assms(1)] ka by simp
  note g' = apply_initial_guess_fixed_mesh [OF g [unfolded assms(2,3), simplified nc]]
  note m' = apply_initial_mesh_points [OF m [unfolded assms(3)]]
  from g' assms(5) have i1:
    "take (length (sol_ispace g)) (drop (length pts) ispace1) = sol_ispace g"
    using np_setslice_exact by blast
  from g' assms(6) have f1:
    "take (length (sol_fspace g)) (drop (length pts) fspace1) = sol_fspace g"
    using np_setslice_exact by blast
  from m' assms(4) have f2: "take (length pts) fspace2 = pts"
    "drop (length pts) fspace2 = drop (length pts) fspace1"
    using np_setslice_prefix by blast+
  have l1: "length ipar1 = 11" "length ipar = 11"
    using apply_initial_mesh_length [OF m] apply_initial_guess_length [OF g] len by simp_all
  have ip: "ipar2 ! 8 = 4" "ipar2 ! 2 = wrap32 (int (length pts) - 1)"
    "ipar2 ! 7 = (if adaptive_mesh_selection a then 1 else 2)"
    using g' m' l1 by simp_all
  show "take (length pts) (k_fspace ka) = pts" using f2 ka by simp
  show "take (length (sol_fspace g)) (drop (length pts) (k_fspace ka)) = sol_fspace g"
    using f1 f2 ka by simp
  show "take (length (sol_ispace g)) (drop (length pts) (k_ispace ka)) = sol_ispace g"
    using i1 ka by simp
  show "k_ipar ka ! 8 = 4" using ip ka by simp
  show "k_ipar ka ! 2 = wrap32 (int (length pts) - 1)" using ip ka by simp
  show "k_ipar ka ! 7 = (if adaptive_mesh_selection a then 1 else 2)" using ip ka by simp
qed

text \<open>
  The mesh as a NumPy array of two or more points: both tests against \<^verbatim>\<open>None\<close> raise, so
  no call with such a mesh reaches the kernel, with or without a \<^verbatim>\<open>Solution\<close> and with or
  without mesh selection.
\<close>

lemma array_truth_ambiguous:
  "2 \<le> length bs \<Longrightarrow> array_truth bs = Inl (ValueError
     ''The truth value of an array with more than one element is ambiguous. Use a.any() or a.all()'')"
  by (cases bs rule: array_truth.cases) simp_all

lemma array_mesh_guess_raises:
  assumes "2 \<le> length pts"
  shows "apply_initial_guess (GuessSolution g) (MeshArray pts) c ipar ispace fspace =
     Inl (ValueError
       ''The truth value of an array with more than one element is ambiguous. Use a.any() or a.all()'')"
  using assms by (simp add: apply_initial_guess_def array_truth_ambiguous)

lemma array_mesh_raises:
  assumes "2 \<le> length pts"
  shows "apply_initial_mesh (MeshArray pts) ad ipar fspace =
     Inl (ValueError
       ''The truth value of an array with more than one element is ambiguous. Use a.any() or a.all()'')"
  using assms by (simp add: apply_initial_mesh_def array_truth_ambiguous)

lemma array_mesh_never_accepted:
  assumes "initial_mesh a = MeshArray pts" and "2 \<le> length pts"
  shows "\<exists>e. colnew_solve_args env a = Inl e \<and> (is_ValueError e \<or> is_OverflowError e)"
proof (cases "colnew_solve_args env a")
  case (Inl e)
  then show ?thesis
    using colnew_solve_args_error [OF Inl] assms(1) by auto
next
  case (Inr ka)
  then obtain ipar1 fspace1 r
    where "apply_initial_mesh (initial_mesh a) (adaptive_mesh_selection a) ipar1 fspace1
             = Inr r"
    by (elim colnew_solve_args_InrE) simp
  then show ?thesis
    using array_mesh_raises [OF assms(2)] assms(1) by simp
qed

subsection \<open>Saving and restoring the COMMON blocks\<close>

lemma save_block_fold:
  "fold (\<lambda>name stack_sub. stack_sub(name \<mapsto> f name)) names m0 =
     (\<lambda>n. if n \<in> set names then Some (f n) else m0 n)"
  by (induction names arbitrary: m0) (auto simp: fun_eq_iff)

lemma save_block_apply:
  "save_block com name =
     (if name \<in> set (cb_names com) then Some (cb_vars com name) else None)"
  by (simp add: save_block_def save_block_fold)

lemma restore_block_saved:
  assumes "\<forall>n \<in> set names. sub n \<noteq> None"
  shows "restore_block names vars sub =
           (None, \<lambda>n. if n \<in> set names then the (sub n) else vars n)"
  using assms
proof (induction names arbitrary: vars)
  case Nil
  then show ?case by simp
next
  case (Cons name names)
  then obtain v where v: "sub name = Some v" by auto
  show ?case
    using Cons v by (auto simp: fun_eq_iff)
qed

lemma restore_block_save_block:
  assumes "cb_names com = cb_names com0"
  shows "\<exists>vars. restore_block (cb_names com) (cb_vars com) (save_block com0) = (None, vars)
           \<and> (\<forall>n \<in> set (cb_names com0). vars n = cb_vars com0 n)"
proof -
  have "\<forall>n \<in> set (cb_names com). save_block com0 n \<noteq> None"
    using assms by (simp add: save_block_apply)
  then have "restore_block (cb_names com) (cb_vars com) (save_block com0) =
      (None, \<lambda>n. if n \<in> set (cb_names com) then the (save_block com0 n) else cb_vars com n)"
    by (rule restore_block_saved)
  moreover have "(if n \<in> set (cb_names com) then the (save_block com0 n) else cb_vars com n)
      = cb_vars com0 n" if "n \<in> set (cb_names com0)" for n
    using that assms by (simp add: save_block_apply)
  ultimately show ?thesis
    by blast
qed

lemma restore_commons_saved:
  assumes "map cb_names coms = map cb_names coms0"
  shows "\<exists>coms'. restore_commons coms (map save_block coms0) = (None, coms')
           \<and> map (\<lambda>com. (cb_names com, map (cb_vars com) (cb_names com))) coms'
             = map (\<lambda>com. (cb_names com, map (cb_vars com) (cb_names com))) coms0"
  using assms
proof (induction coms arbitrary: coms0)
  case Nil
  then show ?case by simp
next
  case (Cons com coms)
  then obtain com0 rest where c0: "coms0 = com0 # rest"
    by (cases coms0) auto
  with Cons.prems have n: "cb_names com = cb_names com0"
    and r: "map cb_names coms = map cb_names rest"
    by simp_all
  from restore_block_save_block [OF n] obtain vars
    where v: "restore_block (cb_names com) (cb_vars com) (save_block com0) = (None, vars)"
      and vs: "\<forall>n \<in> set (cb_names com0). vars n = cb_vars com0 n"
    by blast
  from Cons.IH [OF r] obtain coms'
    where c: "restore_commons coms (map save_block rest) = (None, coms')"
      and cs: "map (\<lambda>com. (cb_names com, map (cb_vars com) (cb_names com))) coms'
             = map (\<lambda>com. (cb_names com, map (cb_vars com) (cb_names com))) rest"
    by blast
  show ?case
    using v vs c cs n by (simp add: c0)
qed

lemma colnew_enter_depth [simp]: "colnew_depth (colnew_enter s) = colnew_depth s + 1"
  by (simp add: colnew_enter_def Let_def)

lemma colnew_enter_commons [simp]: "colnew_commons (colnew_enter s) = colnew_commons s"
  by (simp add: colnew_enter_def Let_def)

lemma colnew_enter_stack:
  "colnew_stack (colnew_enter s) =
     (if colnew_depth s = 0 then colnew_stack s
      else colnew_stack s @ [map save_block (colnew_commons s)])"
  by (simp add: colnew_enter_def Let_def)

lemma colnew_solve_state:
  "snd (colnew_solve env colnew a s) = s
   \<or> (\<exists>ka. snd (colnew_solve env colnew a s) = snd (colnew ka s))"
proof (cases "colnew_solve_args env a")
  case (Inl e)
  then show ?thesis by (simp add: colnew_solve_def)
next
  case (Inr ka)
  then have "snd (colnew_solve env colnew a s) = snd (colnew ka s)"
    by (simp add: colnew_solve_def split: prod.splits)
  then show ?thesis by blast
qed

lemma colnew_solve_respects:
  assumes "respects_frames colnew"
  shows "colnew_depth (snd (colnew_solve env colnew a s)) = colnew_depth s
       \<and> colnew_stack (snd (colnew_solve env colnew a s)) = colnew_stack s
       \<and> map cb_names (colnew_commons (snd (colnew_solve env colnew a s)))
           = map cb_names (colnew_commons s)"
  using assms colnew_solve_state [of env colnew a s]
  by (auto simp: respects_frames_def)

lemma colnew_exit_outermost:
  assumes "colnew_depth s2 = 1"
  shows "colnew_exit s2 = (None, s2\<lparr>colnew_depth := 0\<rparr>)"
  using assms by (simp add: colnew_exit_def Let_def)

lemma colnew_exit_nested:
  assumes "colnew_depth s2 \<noteq> 1"
    and "colnew_stack s2 = st @ [map save_block coms0]"
    and "map cb_names (colnew_commons s2) = map cb_names coms0"
  shows "\<exists>coms'. colnew_exit s2 =
             (None, s2\<lparr>colnew_depth := colnew_depth s2 - 1, colnew_stack := st,
                       colnew_commons := coms'\<rparr>)
           \<and> map (\<lambda>com. (cb_names com, map (cb_vars com) (cb_names com))) coms'
             = map (\<lambda>com. (cb_names com, map (cb_vars com) (cb_names com))) coms0"
proof -
  from restore_commons_saved [OF assms(3)] obtain coms'
    where rc: "restore_commons (colnew_commons s2) (map save_block coms0) = (None, coms')"
      and vis: "map (\<lambda>com. (cb_names com, map (cb_vars com) (cb_names com))) coms'
             = map (\<lambda>com. (cb_names com, map (cb_vars com) (cb_names com))) coms0"
    by blast
  have "colnew_exit s2 =
      (None, s2\<lparr>colnew_depth := colnew_depth s2 - 1, colnew_stack := st,
                colnew_commons := coms'\<rparr>)"
    using assms(1,2) rc by (simp add: colnew_exit_def Let_def)
  with vis show ?thesis by blast
qed

lemma solve_preserves_names:
  assumes "respects_frames colnew"
  shows "colnew_depth (snd (solve env colnew a s)) = colnew_depth s
       \<and> colnew_stack (snd (solve env colnew a s)) = colnew_stack s
       \<and> map cb_names (colnew_commons (snd (solve env colnew a s)))
           = map cb_names (colnew_commons s)"
proof -
  let ?s1 = "colnew_enter s"
  obtain r s2 where body: "colnew_solve env colnew a ?s1 = (r, s2)"
    by (cases "colnew_solve env colnew a ?s1") auto
  have s2: "colnew_depth s2 = colnew_depth s + 1" "colnew_stack s2 = colnew_stack ?s1"
    "map cb_names (colnew_commons s2) = map cb_names (colnew_commons s)"
    using colnew_solve_respects [OF assms, of env a ?s1] body by simp_all
  show ?thesis
  proof (cases "colnew_depth s = 0")
    case True
    then have "colnew_exit s2 = (None, s2\<lparr>colnew_depth := 0\<rparr>)"
      using s2 by (simp add: colnew_exit_outermost)
    then show ?thesis
      using True body s2 by (simp add: solve_def colnew_enter_stack)
  next
    case False
    have st: "colnew_stack s2 = colnew_stack s @ [map save_block (colnew_commons s)]"
      using s2 False by (simp add: colnew_enter_stack)
    from False s2 have "colnew_depth s2 \<noteq> 1" by simp
    from colnew_exit_nested [OF this st s2(3)] obtain coms'
      where ex: "colnew_exit s2 =
             (None, s2\<lparr>colnew_depth := colnew_depth s2 - 1, colnew_stack := colnew_stack s,
                       colnew_commons := coms'\<rparr>)"
        and vis: "map (\<lambda>com. (cb_names com, map (cb_vars com) (cb_names com))) coms'
             = map (\<lambda>com. (cb_names com, map (cb_vars com) (cb_names com))) (colnew_commons s)"
      by blast
    have "map fst (map (\<lambda>com. (cb_names com, map (cb_vars com) (cb_names com))) coms')
        = map fst (map (\<lambda>com. (cb_names com, map (cb_vars com) (cb_names com)))
            (colnew_commons s))"
      using vis by simp
    then have "map cb_names coms' = map cb_names (colnew_commons s)"
      by (simp add: comp_def)
    then show ?thesis
      using body ex s2 by (simp add: solve_def)
  qed
qed

lemma respects_frames_nested:
  assumes "respects_frames inner"
  shows "respects_frames (kernel_with_nested_solve env inner a)"
  using solve_preserves_names [OF assms, of env a]
  by (simp add: respects_frames_def kernel_with_nested_solve_def)

lemma respects_frames_clobber_kernel: "respects_frames clobber_kernel"
  by (simp add: respects_frames_def clobber_kernel_def comp_def)

subsection \<open>The expanded Jacobian of the boundary conditions\<close>

lemma py_index_member:
  "p \<in> set xs \<Longrightarrow> \<exists>j. py_index xs p = Inr j \<and> j < length xs \<and> xs ! j = p"
  by (induction xs) auto

lemma index_each_members:
  "set ps \<subseteq> set indep \<Longrightarrow>
     \<exists>js. index_each indep ps = Inr js \<and> length js = length ps
         \<and> (\<forall>i < length ps. js ! i < length indep \<and> indep ! (js ! i) = ps ! i)"
proof (induction ps)
  case Nil
  then show ?case by simp
next
  case (Cons p ps)
  then obtain j where j: "py_index indep p = Inr j" "j < length indep" "indep ! j = p"
    using py_index_member [of p indep] by auto
  from Cons obtain js where js: "index_each indep ps = Inr js" "length js = length ps"
    "\<forall>i < length ps. js ! i < length indep \<and> indep ! (js ! i) = ps ! i"
    by auto
  show ?case
    using j js by (auto simp: nth_Cons split: nat.splits)
qed

lemma np_unique_set [simp]: "set (np_unique xs) = set xs"
  by (simp add: np_unique_def)

lemma distinct_remdups_adj_sorted: "sorted xs \<Longrightarrow> distinct (remdups_adj xs)"
  by (induction xs rule: remdups_adj.induct) auto

lemma np_unique_distinct: "distinct (np_unique xs)"
  by (simp add: np_unique_def distinct_remdups_adj_sorted)

lemma np_unique_length: "length (np_unique xs) = card (set xs)"
  using distinct_card [OF np_unique_distinct, of xs] by simp

lemma dgsub_loop_Inr:
  assumes "\<forall>j \<in> set js. j < nindep" and "i + length js \<le> mstar"
  shows "dgsub_loop mstar nindep dg d i js =
     Inr (\<lambda>a k c. if i \<le> a \<and> a < i + length js \<and> c = js ! (a - i) then dg a k else d a k c)"
  using assms
proof (induction js arbitrary: d i)
  case Nil
  then show ?case by (simp add: fun_eq_iff)
next
  case (Cons j js)
  have "dgsub_loop mstar nindep dg d i (j # js) =
      dgsub_loop mstar nindep dg (\<lambda>a k c. if a = i \<and> c = j then dg i k else d a k c) (Suc i) js"
    using Cons.prems by simp
  also have "\<dots> = Inr (\<lambda>a k c. if Suc i \<le> a \<and> a < Suc i + length js \<and> c = js ! (a - Suc i)
      then dg a k else if a = i \<and> c = j then dg i k else d a k c)"
    using Cons.prems by (intro Cons.IH) auto
  also have "(\<lambda>a k c. if Suc i \<le> a \<and> a < Suc i + length js \<and> c = js ! (a - Suc i)
      then dg a k else if a = i \<and> c = j then dg i k else d a k c)
    = (\<lambda>a k c. if i \<le> a \<and> a < i + length (j # js) \<and> c = (j # js) ! (a - i)
      then dg a k else d a k c)"
    by (auto simp: fun_eq_iff nth_Cons')
  finally show ?case .
qed


lemma get_u_loop_Inr:
  assumes "\<forall>j \<in> set js. j < nindep" and "i + length js \<le> mstar"
  shows "get_u_loop mstar nindep z u i js =
     Inr (\<lambda>k c. if i \<le> c \<and> c < i + length js then z k (js ! (c - i)) else u k c)"
  using assms
proof (induction js arbitrary: u i)
  case Nil
  then show ?case by (simp add: fun_eq_iff)
next
  case (Cons j js)
  have "get_u_loop mstar nindep z u i (j # js) =
      get_u_loop mstar nindep z (\<lambda>k c. if c = i then z k j else u k c) (Suc i) js"
    using Cons.prems by simp
  also have "\<dots> = Inr (\<lambda>k c. if Suc i \<le> c \<and> c < Suc i + length js then z k (js ! (c - Suc i))
      else if c = i then z k j else u k c)"
    using Cons.prems by (intro Cons.IH) auto
  also have "(\<lambda>k c. if Suc i \<le> c \<and> c < Suc i + length js then z k (js ! (c - Suc i))
      else if c = i then z k j else u k c)
    = (\<lambda>k c. if i \<le> c \<and> c < i + length (j # js) then z k ((j # js) ! (c - i)) else u k c)"
    by (auto simp: fun_eq_iff nth_Cons')
  finally show ?case .
qed

lemma indep_map_ok:
  "\<exists>js. index_each (np_unique bps) bps = Inr js \<and> length js = length bps
       \<and> (\<forall>i < length bps. js ! i < card (set bps) \<and> np_unique bps ! (js ! i) = bps ! i)"
  using index_each_members [of bps "np_unique bps"] by (simp add: np_unique_length)

lemma expanded_dgsub_local:
  assumes "index_each (np_unique bps) bps = Inr js" and "length bps = mstar"
    and "nindep = length (np_unique bps)" and "length z = mstar * nindep"
  shows "\<exists>u d. get_u mem mstar js nindep z = Inr u
           \<and> (\<forall>k i. i < mstar \<longrightarrow> u k i = z ! (k * nindep + js ! i))
           \<and> expanded_dgsub dgsub mem mstar js nindep z = Inr d
           \<and> length d = mstar
           \<and> (\<forall>i < mstar. length (d ! i) = mstar * nindep
                \<and> (\<forall>k < mstar. \<forall>j < nindep.
                      d ! i ! (k * nindep + j) = (if j = js ! i then dgsub u i k else 0)))"
proof -
  from index_each_members [of bps "np_unique bps"] assms(1)
  have js: "length js = length bps" "\<forall>i < length bps. js ! i < length (np_unique bps)"
    by auto
  then have in_range: "\<forall>j \<in> set js. j < nindep"
    using assms(3) by (auto simp: in_set_conv_nth)
  have len: "0 + length js \<le> mstar"
    using js assms(2) by simp
  let ?u = "\<lambda>k c. if 0 \<le> c \<and> c < 0 + length js then z ! (k * nindep + js ! (c - 0)) else mem k c"
  have u: "get_u mem mstar js nindep z = Inr ?u"
    using get_u_loop_Inr [OF in_range len, of "\<lambda>k j. z ! (k * nindep + j)" mem] assms(4)
    by (simp add: get_u_def)
  let ?d = "\<lambda>a k c. if 0 \<le> a \<and> a < 0 + length js \<and> c = js ! (a - 0) then dgsub ?u a k
      else (0::real)"
  have d: "dgsub_loop mstar nindep (dgsub ?u) (\<lambda>a k c. 0) 0 js = Inr ?d"
    using dgsub_loop_Inr [OF in_range len, of "dgsub ?u" "\<lambda>a k c. 0"] .
  have cell: "(k * nindep + j) div nindep = k \<and> (k * nindep + j) mod nindep = j"
    if "j < nindep" for k j
    using that by simp
  have col: "k * nindep + j < mstar * nindep" if "k < mstar" "j < nindep" for k j
  proof -
    have "k * nindep + j < Suc k * nindep" using that by simp
    also have "\<dots> \<le> mstar * nindep" using that by (intro mult_le_mono1) simp
    finally show ?thesis .
  qed
  show ?thesis
    using u d js assms(2) cell col
    by (simp add: expanded_dgsub_def)
qed

lemma check_jacobians_boundary_raises:
  "\<exists>js. index_each (np_unique bps) bps = Inr js
       \<and> check_jacobians_boundary check_jacobian mem bps degs gsub dgsub =
           (if check_jacobian (nat (sum_list degs) * card (set bps))
                 (\<lambda>z. and_then (get_u mem (nat (sum_list degs)) js (card (set bps)) z)
                        (\<lambda>u. Inr (gsub u)))
                 (expanded_dgsub dgsub mem (nat (sum_list degs)) js (card (set bps)))
            then None else Some (ValueError ''dgsub may be invalid''))"
proof -
  obtain js where "index_each (np_unique bps) bps = Inr js"
    using indep_map_ok by blast
  then show ?thesis
    by (simp add: check_jacobians_boundary_def Let_def np_unique_length)
qed

subsection \<open>The example problem reaches the kernel\<close>

lemmas section_defs = adapt_def check_degrees_def default_collocation_points_def
  np_empty_def nsizei_def nsizef_def check_boundary_points_def fixed_points_def
  active_tolerances_def active_indices_def apply_initial_guess_def apply_initial_mesh_def
  np_unique_def clamp_verbosity_def initial_ipar_def np_setslice_def np_int32_def
  fits_long_def wrap32_def np_setitem_int32_def

lemma ex_args_kernel_args:
  "colnew_solve_args ex_env ex_args = Inr (projr (colnew_solve_args ex_env ex_args))
   \<and> k_degrees (projr (colnew_solve_args ex_env ex_args)) = [2]
   \<and> k_zeta (projr (colnew_solve_args ex_env ex_args)) = [0, 1]
   \<and> k_ipar (projr (colnew_solve_args ex_env ex_args)) = [1, 0, 10, 1, 108, 15, - 1, 0, 0, 0, 0]
   \<and> k_ltol (projr (colnew_solve_args ex_env ex_args)) = [1]
   \<and> k_tol (projr (colnew_solve_args ex_env ex_args)) = [1 / 1000]
   \<and> k_fixpnt (projr (colnew_solve_args ex_env ex_args)) = [0]"
  by (simp add: colnew_solve_args_def ex_env_def ex_args_def section_defs Let_def)


section \<open>The claims\<close>




text \<open>
  C2. For a call that reaches the kernel, with \<open>ncomp\<close> and \<open>mstar\<close> the number and the
  sum of the degrees, \<open>k\<close> the number of collocation points (0 when it is not given)
  and \<open>M\<close> the maximum mesh size: the integer work array has exactly
  \<open>M * (3 + k * ncomp + mstar)\<close> entries and the float work array exactly
  \<open>M * (4 + 3 * mstar + (5 + k * ncomp) * (k * ncomp + mstar) + 2 * mstar * 2 * mstar)\<close>;
  these are the values of \<open>nsizei\<close> and \<open>nsizef\<close> (where \<open>nrec = 0\<close>) times \<open>M\<close>. The
  entries \<^verbatim>\<open>ipar[5]\<close> and \<^verbatim>\<open>ipar[4]\<close> tell the kernel the two lengths as 32-bit integers:
  the lengths themselves below \<open>2^31\<close>, and wrapped around from there on.
\<close>

theorem workspace_sizes:
  assumes "colnew_solve_args env a = Inr ka"
    and "ncomp = int (length (k_degrees ka))"
    and "mstar = sum_list (k_degrees ka)"
    and "k = (case collocation_points a of None \<Rightarrow> 0 | Some c \<Rightarrow> c)"
    and "M = maximum_mesh_size a"
  shows "int (length (k_ispace ka)) = M * (3 + k * ncomp + mstar)
       \<and> int (length (k_fspace ka)) =
           M * (4 + 3 * mstar + (5 + k * ncomp) * (k * ncomp + mstar) + 2 * mstar * 2 * mstar)
       \<and> int (length (k_ispace ka)) = M * nsizei k ncomp mstar
       \<and> int (length (k_fspace ka)) = M * nsizef k ncomp mstar
       \<and> k_ipar ka ! 5 = wrap32 (int (length (k_ispace ka)))
       \<and> k_ipar ka ! 4 = wrap32 (int (length (k_fspace ka)))
       \<and> (length (k_ispace ka) < 2147483648 \<longrightarrow> k_ipar ka ! 5 = int (length (k_ispace ka)))
       \<and> (length (k_fspace ka) < 2147483648 \<longrightarrow> k_ipar ka ! 4 = int (length (k_fspace ka)))"
proof -
  from assms(1) obtain degs cp fspace ispace ipar ipar1 ispace1 fspace1 ipar2 fspace2
    where cp: "default_collocation_points (collocation_points a) degs = Inr cp"
      and ei: "np_empty (empty_int32 env)
           (maximum_mesh_size a * nsizei cp (int (length degs)) (sum_list degs)) = Inr ispace"
      and ef: "np_empty (empty_float64 env)
           (maximum_mesh_size a * nsizef cp (int (length degs)) (sum_list degs)) = Inr fspace"
      and g: "apply_initial_guess (initial_guess a) (initial_mesh a)
           (coarsen_initial_guess_mesh a) ipar ispace fspace = Inr (ipar1, ispace1, fspace1)"
      and m: "apply_initial_mesh (initial_mesh a) (adaptive_mesh_selection a) ipar1 fspace1
           = Inr (ipar2, fspace2)"
      and ka: "k_degrees ka = degs" "k_ispace ka = ispace1" "k_fspace ka = fspace2"
    by (elim colnew_solve_args_InrE) simp
  have k: "cp = k"
    using default_collocation_points_value [OF cp] assms(4) by simp
  have li: "int (length (k_ispace ka)) = M * nsizei k ncomp mstar"
    using length_np_empty [OF ei] apply_initial_guess_length [OF g] ka k assms by simp
  have lf: "int (length (k_fspace ka)) = M * nsizef k ncomp mstar"
    using length_np_empty [OF ef] apply_initial_guess_length [OF g]
      apply_initial_mesh_length [OF m] ka k assms by simp
  have small: "wrap32 (int n) = int n" if "n < 2147483648" for n :: nat
    using that by (intro wrap32_id) simp_all
  note ipar = colnew_solve_args_ipar(3,4) [OF assms(1)]
  have "length (k_ispace ka) < 2147483648 \<longrightarrow> k_ipar ka ! 5 = int (length (k_ispace ka))"
    using ipar(2) small [of "length (k_ispace ka)"] by simp
  moreover
  have "length (k_fspace ka) < 2147483648 \<longrightarrow> k_ipar ka ! 4 = int (length (k_fspace ka))"
    using ipar(1) small [of "length (k_fspace ka)"] by simp
  moreover
  have "int (length (k_ispace ka)) = M * (3 + k * ncomp + mstar)"
    using li by (simp add: nsizei_def Let_def)
  moreover
  have "int (length (k_fspace ka)) =
      M * (4 + 3 * mstar + (5 + k * ncomp) * (k * ncomp + mstar) + 2 * mstar * 2 * mstar)"
    using lf by (simp add: nsizef_def Let_def)
  ultimately show ?thesis
    using li lf ipar by (intro conjI)
qed

theorem workspace_sizes_witness:
  "\<exists>ka. colnew_solve_args ex_env ex_args = Inr ka
        \<and> length (k_ispace ka) = 3 * (3 + 0 * 1 + 2)
        \<and> length (k_fspace ka) = 3 * (4 + 3 * 2 + (5 + 0 * 1) * (0 * 1 + 2) + 2 * 2 * 2 * 2)
        \<and> k_ipar ka ! 5 = 15 \<and> k_ipar ka ! 4 = 108"
proof -
  obtain ka where ka: "colnew_solve_args ex_env ex_args = Inr ka"
    using ex_args_kernel_args by blast
  have deg: "k_degrees ka = [2]"
    using ka ex_args_kernel_args by simp
  have "collocation_points ex_args = None" "maximum_mesh_size ex_args = 3"
    by (simp_all add: ex_args_def)
  then show ?thesis
    using workspace_sizes [OF ka refl refl refl refl] ka deg by (simp add: wrap32_def)
qed

text \<open>
  C3. The kernel and its callbacks leave the depth counter, the stack and the names of the
  COMMON blocks as they found them (\<open>respects_frames\<close>; a callback that runs a nested
  \<^verbatim>\<open>solve\<close> does). Then for every \<^verbatim>\<open>solve\<close>, whether \<^verbatim>\<open>_colnew_solve\<close> returns or raises:
  \<^verbatim>\<open>_colnew_exit\<close> has run when \<^verbatim>\<open>solve\<close> ends (the depth and the stack are those of the
  entry) and the outcome is that of \<^verbatim>\<open>_colnew_solve\<close>. For a nested solve (the depth is
  not 0 on entry) \<^verbatim>\<open>_colnew_enter\<close> pushes one entry that holds a copy of every variable
  of every COMMON block, and after the exit every variable has the value it had on
  entry. For the outermost solve (depth 0) \<^verbatim>\<open>_colnew_enter\<close> only counts, and the exit
  leaves the COMMON blocks as the kernel left them.
\<close>

theorem solve_restores_commons:
  assumes "respects_frames colnew"
  shows "colnew_depth (snd (solve env colnew a s)) = colnew_depth s
       \<and> colnew_stack (snd (solve env colnew a s)) = colnew_stack s
       \<and> fst (solve env colnew a s) = fst (colnew_solve env colnew a (colnew_enter s))
       \<and> (colnew_depth s \<noteq> 0 \<longrightarrow>
            colnew_stack (colnew_enter s)
              = colnew_stack s @ [map save_block (colnew_commons s)]
          \<and> colnew_commons (colnew_enter s) = colnew_commons s
          \<and> visible (snd (solve env colnew a s)) = visible s)
       \<and> (colnew_depth s = 0 \<longrightarrow>
            colnew_enter s = s\<lparr>colnew_depth := 1\<rparr>
          \<and> colnew_commons (snd (solve env colnew a s))
              = colnew_commons (snd (colnew_solve env colnew a (colnew_enter s))))"
proof -
  let ?s1 = "colnew_enter s"
  obtain r s2 where body: "colnew_solve env colnew a ?s1 = (r, s2)"
    by (cases "colnew_solve env colnew a ?s1") auto
  have s2: "colnew_depth s2 = colnew_depth s + 1" "colnew_stack s2 = colnew_stack ?s1"
    "map cb_names (colnew_commons s2) = map cb_names (colnew_commons s)"
    using colnew_solve_respects [OF assms, of env a ?s1] body by simp_all
  show ?thesis
  proof (cases "colnew_depth s = 0")
    case True
    then have "colnew_exit s2 = (None, s2\<lparr>colnew_depth := 0\<rparr>)"
      using s2 by (simp add: colnew_exit_outermost)
    then show ?thesis
      using True body s2 by (simp add: solve_def colnew_enter_stack colnew_enter_def Let_def)
  next
    case False
    have st: "colnew_stack s2 = colnew_stack s @ [map save_block (colnew_commons s)]"
      using s2 False by (simp add: colnew_enter_stack)
    from False s2 have "colnew_depth s2 \<noteq> 1" by simp
    from colnew_exit_nested [OF this st s2(3)] obtain coms'
      where ex: "colnew_exit s2 =
             (None, s2\<lparr>colnew_depth := colnew_depth s2 - 1, colnew_stack := colnew_stack s,
                       colnew_commons := coms'\<rparr>)"
        and vis: "map (\<lambda>com. (cb_names com, map (cb_vars com) (cb_names com))) coms'
             = map (\<lambda>com. (cb_names com, map (cb_vars com) (cb_names com))) (colnew_commons s)"
      by blast
    show ?thesis
      using False body vis ex s2(1)
      by (simp add: solve_def visible_def colnew_enter_stack)
  qed
qed

theorem solve_restores_commons_witness:
  "colnew_depth ex_state = 1
   \<and> visible ex_state = [([''n'', ''k''], [3, 5])]
   \<and> visible (snd (colnew_solve ex_env clobber_kernel ex_args (colnew_enter ex_state)))
       = [([''n'', ''k''], [0, 0])]
   \<and> fst (colnew_solve ex_env clobber_kernel ex_args (colnew_enter ex_state))
       = Inr (RealSolution ex_solution)
   \<and> visible (snd (solve ex_env clobber_kernel ex_args ex_state)) = [([''n'', ''k''], [3, 5])]
   \<and> colnew_depth (snd (solve ex_env clobber_kernel ex_args ex_state)) = 1
   \<and> colnew_stack (snd (solve ex_env clobber_kernel ex_args ex_state)) = []
   \<and> fst (solve ex_env clobber_kernel ex_args ex_state) = Inr (RealSolution ex_solution)"
proof -
  obtain ka where ka: "colnew_solve_args ex_env ex_args = Inr ka"
    using ex_args_kernel_args by blast
  have init: "Solution_init ([1, 4, 1, 2, 0, 0, 4, 0] @ drop 8 (k_ispace ka))
      ([0, 1, 7, 9] @ drop 4 (k_fspace ka)) = Inr ex_solution"
    by (simp add: Solution_init_def py_slice_to_def ex_solution_def)
  have body: "colnew_solve ex_env clobber_kernel ex_args s =
      (Inr (RealSolution ex_solution),
       s\<lparr>colnew_commons := map (\<lambda>com. com\<lparr>cb_vars := (\<lambda>_. 0)\<rparr>) (colnew_commons s)\<rparr>)" for s
    using ka init
    by (simp add: colnew_solve_def clobber_kernel_def check_return_value_def ex_args_def)
  have vis: "visible ex_state = [([''n'', ''k''], [3, 5])]"
    by (simp add: visible_def ex_state_def)
  show ?thesis
    using solve_restores_commons [OF respects_frames_clobber_kernel, of ex_env ex_args ex_state]
      vis body
    by (simp add: ex_state_def visible_def)
qed

text \<open>
  C4. \<^verbatim>\<open>Solution(ispace, fspace)\<close> on work arrays whose populated prefixes lie inside
  them (\<open>7 + ispace[2]\<close> integers, \<open>ispace[6]\<close> floats of which the first
  \<open>ispace[0] + 1\<close> are the mesh): the object holds \<open>ncomp = ispace[2]\<close>,
  \<open>mstar = ispace[3]\<close>, \<open>nmesh = ispace[0] + 1\<close>, a copy of exactly the first
  \<open>7 + ncomp\<close> integers and a copy of exactly the first \<open>ispace[6]\<close> floats, and nothing
  else; its mesh is the first \<open>nmesh\<close> entries of the copied floats.
\<close>

theorem Solution_init_prefix:
  assumes "7 \<le> length ispace"
    and "0 \<le> 7 + ispace ! 2" and "7 + ispace ! 2 \<le> int (length ispace)"
    and "0 \<le> ispace ! 6" and "ispace ! 6 \<le> int (length fspace)"
    and "0 \<le> ispace ! 0 + 1" and "ispace ! 0 + 1 \<le> ispace ! 6"
  shows "\<exists>sol. Solution_init ispace fspace = Inr sol
           \<and> sol = \<lparr> sol_ncomp = ispace ! 2, sol_mstar = ispace ! 3,
                     sol_nmesh = ispace ! 0 + 1,
                     sol_ispace = take (nat (7 + ispace ! 2)) ispace,
                     sol_fspace = take (nat (ispace ! 6)) fspace \<rparr>
           \<and> int (length (sol_ispace sol)) = 7 + sol_ncomp sol
           \<and> int (length (sol_fspace sol)) = ispace ! 6
           \<and> get_mesh sol = take (nat (sol_nmesh sol)) (sol_fspace sol)
           \<and> get_mesh sol = take (nat (sol_nmesh sol)) fspace
           \<and> int (length (get_mesh sol)) = sol_nmesh sol"
proof -
  let ?sol = "\<lparr> sol_ncomp = ispace ! 2, sol_mstar = ispace ! 3,
                 sol_nmesh = ispace ! 0 + 1,
                 sol_ispace = take (nat (7 + ispace ! 2)) ispace,
                 sol_fspace = take (nat (ispace ! 6)) fspace \<rparr>"
  have init: "Solution_init ispace fspace = Inr ?sol"
    using assms by (simp add: Solution_init_def py_slice_to_take)
  have li: "nat (7 + ispace ! 2) \<le> length ispace"
    using assms by linarith
  have lf: "nat (ispace ! 6) \<le> length fspace"
    using assms by linarith
  have lm: "nat (ispace ! 0 + 1) \<le> nat (ispace ! 6)"
    using assms by linarith
  have mesh: "get_mesh ?sol = take (nat (ispace ! 0 + 1)) (take (nat (ispace ! 6)) fspace)"
    using assms by (simp add: get_mesh_def py_slice_to_take)
  have mesh': "get_mesh ?sol = take (nat (ispace ! 0 + 1)) fspace"
    using lm by (simp add: mesh min_absorb1)
  have "int (length (get_mesh ?sol)) = ispace ! 0 + 1"
    using lm lf assms by (simp add: mesh')
  moreover have "int (length (sol_ispace ?sol)) = 7 + ispace ! 2"
    using li assms by simp
  moreover have "int (length (sol_fspace ?sol)) = ispace ! 6"
    using lf assms by simp
  ultimately show ?thesis
    using init mesh mesh' by simp
qed

theorem Solution_init_prefix_witness:
  "Solution_init [1, 4, 1, 2, 0, 0, 4, 0, 0, 0] [0, 1, 7, 9, 0] = Inr ex_solution
   \<and> sol_ispace ex_solution = [1, 4, 1, 2, 0, 0, 4, 0]
   \<and> sol_fspace ex_solution = [0, 1, 7, 9]
   \<and> get_mesh ex_solution = [0, 1]"
  using Solution_init_prefix [of "[1, 4, 1, 2, 0, 0, 4, 0, 0, 0]" "[0, 1, 7, 9, 0]"]
  by (simp add: ex_solution_def)

text \<open>
  C5. The ordering test compares \<^verbatim>\<open>zeta\<close> after \<^verbatim>\<open>zeta.sort()\<close> with \<^verbatim>\<open>boundary_points\<close>.
  For a \<^verbatim>\<open>float64\<close> array \<^verbatim>\<open>np.asarray\<close> returns the array itself, the sort reorders the
  caller's array in place, and the test compares the array with itself: the boundary
  points \<open>[1/2, 1/5]\<close> reach the kernel as \<open>[1/5, 1/2]\<close>. The same points as a list
  raise the \<^verbatim>\<open>ValueError\<close>.
\<close>

theorem unsorted_array_not_rejected:
  "map_sum id k_zeta (colnew_solve_args ex_env unsorted_array_args) = Inr [1 / 5, 1 / 2]
   \<and> colnew_solve_args ex_env unsorted_list_args
       = Inl (ValueError ''Invalid ordering of boundary points'')"
  by (simp add: colnew_solve_args_def ex_env_def ex_args_def unsorted_array_args_def
      unsorted_list_args_def section_defs Let_def)

text \<open>
  C6, as amended. \<^verbatim>\<open>np.where(tolerances > 0)\<close> keeps the positive tolerances: the
  kernel receives exactly the entries of \<^verbatim>\<open>tolerances\<close> that are greater than 0, in
  their order, each paired with the 1-based index of its unknown; the index list is
  strictly increasing and names index \<open>i + 1\<close> exactly when \<open>tolerances[i] > 0\<close>; entries
  that are 0 or negative are dropped; and \<^verbatim>\<open>ipar[3]\<close> is the number of entries kept.
\<close>

theorem active_tolerances_positive:
  assumes "colnew_solve_args env a = Inr ka"
    and "adapt env a = (bp, degs, tols0)"
    and "tols0 = SeqList ts \<or> tols0 = SeqArray ts"
  shows "k_tol ka = filter (\<lambda>t. t > 0) ts
       \<and> k_ltol ka = map (\<lambda>i. int i + 1) (filter (\<lambda>i. ts ! i > 0) [0..<length ts])
       \<and> length (k_ltol ka) = length (k_tol ka)
       \<and> (\<forall>j < length (k_tol ka).
             1 \<le> k_ltol ka ! j \<and> k_ltol ka ! j \<le> int (length ts)
             \<and> k_tol ka ! j = ts ! nat (k_ltol ka ! j - 1))
       \<and> (\<forall>i < length ts. int i + 1 \<in> set (k_ltol ka) \<longleftrightarrow> ts ! i > 0)
       \<and> sorted_wrt (<) (k_ltol ka)
       \<and> k_ipar ka ! 3 = int (length (k_tol ka))"
proof -
  from assms(1) obtain bp' degs' tols0' no_tols tols
    where ad: "adapt env a = (bp', degs', tols0')"
      and cd: "check_degrees degs' = None"
      and no: "seq_eq_None tols0' = Inr no_tols"
      and tols: "tols = (if no_tols then replicate (nat (sum_list degs')) 0
                         else seq_elems tols0')"
      and n: "int (length tols) = sum_list degs'"
      and ka: "k_ltol ka = fst (active_tolerances tols)" "k_tol ka = snd (active_tolerances tols)"
    by (elim colnew_solve_args_InrE) simp
  have "\<not> no_tols"
    using ad assms(2,3) seq_eq_None_Inr [OF no] by auto
  then have ts: "tols = ts"
    using ad assms(2,3) tols by auto
  have len: "length (k_ltol ka) = length (k_tol ka)"
    unfolding ka by (simp add: active_tolerances_def Let_def)
  have "length (k_tol ka) \<le> length ts"
    unfolding ka ts by (simp add: active_tolerances_tol)
  moreover have "int (length ts) \<le> 512"
    using n check_degrees_None [OF cd] unfolding ts by simp
  ultimately have "wrap32 (int (length (k_tol ka))) = int (length (k_tol ka))"
    by (intro wrap32_id) simp_all
  then have count: "k_ipar ka ! 3 = int (length (k_tol ka))"
    using colnew_solve_args_ipar(2) [OF assms(1)] len by simp
  show ?thesis
    using active_tolerances_pairs [of _ ts] ltol_member [of _ ts] sorted_ltol [of ts] len
      count
    unfolding ka ts
    by (simp add: active_tolerances_tol [symmetric] active_tolerances_ltol [symmetric])
qed

theorem active_tolerances_positive_witness:
  "\<exists>ka. colnew_solve_args ex_env ex_args = Inr ka
        \<and> k_tol ka = [1 / 1000] \<and> k_ltol ka = [1] \<and> k_ipar ka ! 3 = 1"
proof -
  obtain ka where ka: "colnew_solve_args ex_env ex_args = Inr ka"
    using ex_args_kernel_args by blast
  have ad: "adapt ex_env ex_args = (PyList [0, 1], [2], SeqList [1 / 1000, 0])"
    by (simp add: adapt_def ex_args_def)
  show ?thesis
    using active_tolerances_positive [OF ka ad, of "[1 / 1000, 0]"] ka
    by (simp add: upt_rec)
qed

text \<open>
  C6 as stated ("exactly the entries whose value is not 0") fails on the tolerances
  \<open>[-1, 1/2]\<close>: the entry \<open>-1\<close> is not 0 and is dropped all the same.
\<close>

theorem negative_tolerance_dropped:
  "map_sum id k_tol (colnew_solve_args ex_env neg_tol_args) = Inr [1 / 2]
   \<and> map_sum id k_ltol (colnew_solve_args ex_env neg_tol_args) = Inr [2]
   \<and> tolerances neg_tol_args = SeqList [- 1, 1 / 2]
   \<and> map_sum id k_tol (colnew_solve_args ex_env neg_tol_args) \<noteq> Inr (removeAll 0 [- 1, 1 / 2])"
  by (simp add: colnew_solve_args_def ex_env_def ex_args_def neg_tol_args_def section_defs Let_def)

text \<open>
  C7. Without mesh selection and with \<^verbatim>\<open>initial_mesh=5\<close>, a call that continues from a
  \<^verbatim>\<open>Solution\<close> without coarsening ends in the \<^verbatim>\<open>TypeError\<close> of \<^verbatim>\<open>len(initial_mesh)\<close>, not in
  a validation error; with no initial guess the same call raises the \<^verbatim>\<open>ValueError\<close> of
  the "Initial mesh" section.
\<close>

theorem count_mesh_type_error:
  "colnew_solve_args ex_env count_mesh_args
     = Inl (TypeError ''object of type int has no len()'')
   \<and> colnew_solve_args ex_env (count_mesh_args\<lparr>initial_guess := GuessNone\<rparr>)
     = Inl (ValueError ''Cannot disable mesh selection when no initial_mesh given'')"
  by (simp add: colnew_solve_args_def ex_env_def ex_args_def count_mesh_args_def
      ex_solution_def section_defs Let_def)

text \<open>
  C8. To continue from a \<^verbatim>\<open>Solution\<close> onto a mesh of the caller's, without coarsening,
  the "Initial guess" section first asks \<^verbatim>\<open>initial_mesh == None\<close>. On a NumPy array of
  two or more mesh points (the \<^verbatim>\<open>mesh\<close> of a \<^verbatim>\<open>Solution\<close> is one) NumPy compares entry by
  entry and the \<^verbatim>\<open>if\<close> raises \<^verbatim>\<open>ValueError\<close>: nothing is written and the kernel is not
  called. The same mesh as a Python list reaches the kernel with the mesh at the start
  of the float array, the floats of the \<^verbatim>\<open>Solution\<close> after it, \<^verbatim>\<open>ipar[8] = 4\<close> and
  \<^verbatim>\<open>ipar[2] = 2\<close>, the number of mesh points less one.
\<close>

theorem array_mesh_not_continued:
  "colnew_solve_args ex_env array_mesh_args
     = Inl (ValueError ''The truth value of an array with more than one element is ambiguous. Use a.any() or a.all()'')
   \<and> map_sum id k_ipar (colnew_solve_args ex_env continue_args)
     = Inr [1, 0, 2, 1, 108, 15, - 1, 1, 4, 0, 0]
   \<and> map_sum id (\<lambda>ka. take 8 (k_fspace ka)) (colnew_solve_args ex_env continue_args)
     = Inr [0, 1 / 2, 1, 0, 1, 7, 9, 0]
   \<and> map_sum id k_ispace (colnew_solve_args ex_env continue_args)
     = Inr [0, 0, 0, 1, 4, 1, 2, 0, 0, 4, 0, 0, 0, 0, 0]"
  by code_simp

text \<open>
  C10. \<^verbatim>\<open>verbosity\<close> is never a reason to reject a call: with any other verbosity \<open>v\<close>
  the call raises the same exception before the kernel, or reaches the kernel with the
  same arguments but for \<^verbatim>\<open>ipar[6]\<close>, which is 1 minus \<open>v\<close> clamped to \<open>[0, 2]\<close>.
\<close>

theorem verbosity_clamped:
  "colnew_solve_args env (a\<lparr>verbosity := v\<rparr>) =
     (case colnew_solve_args env a of
        Inl e \<Rightarrow> Inl e
      | Inr ka \<Rightarrow>
          Inr (ka\<lparr>k_ipar := (k_ipar ka)[6 := 1 - (if v < 0 then 0 else if v > 2 then 2 else v)]\<rparr>))
   \<and> isl (colnew_solve_args env (a\<lparr>verbosity := v\<rparr>)) = isl (colnew_solve_args env a)
   \<and> (\<forall>ka. colnew_solve_args env a = Inr ka \<longrightarrow>
         k_ipar ka ! 6 =
           1 - (if verbosity a < 0 then 0 else if verbosity a > 2 then 2 else verbosity a))"
proof -
  have 1: "colnew_solve_args env (a\<lparr>verbosity := v\<rparr>) =
      (case colnew_solve_args env a of
         Inl e \<Rightarrow> Inl e
       | Inr ka \<Rightarrow> Inr (ka\<lparr>k_ipar := (k_ipar ka)[6 := 1 - clamp_verbosity v]\<rparr>))"
    by (cases "colnew_solve_args env a") (simp_all add: colnew_solve_args_verbosity)
  from 1
  have 2: "isl (colnew_solve_args env (a\<lparr>verbosity := v\<rparr>)) = isl (colnew_solve_args env a)"
    by (cases "colnew_solve_args env a") simp_all
  have 3: "\<forall>ka. colnew_solve_args env a = Inr ka \<longrightarrow>
      k_ipar ka ! 6 = 1 - clamp_verbosity (verbosity a)"
    using colnew_solve_args_ipar(5) by blast
  show ?thesis
    using 1 2 3 unfolding clamp_verbosity_def by (intro conjI)
qed

theorem verbosity_clamped_witness:
  "\<exists>ka. colnew_solve_args ex_env ex_args = Inr ka
        \<and> verbosity ex_args = 5 \<and> k_ipar ka ! 6 = - 1
        \<and> colnew_solve_args ex_env (ex_args\<lparr>verbosity := - 3\<rparr>) =
            Inr (ka\<lparr>k_ipar := (k_ipar ka)[6 := 1]\<rparr>)"
proof -
  obtain ka where ka: "colnew_solve_args ex_env ex_args = Inr ka"
    using ex_args_kernel_args by blast
  have v: "verbosity ex_args = 5"
    by (simp add: ex_args_def)
  show ?thesis
    using verbosity_clamped [where env = ex_env and a = ex_args and v = "- 3"] ka v by simp
qed

end
